theory Spec2Isabelle
  imports Main "HOL-Library.Word" "HOL-Library.AList"
begin

section \<open>Buffers and strings\<close>

text \<open>
  A Node \<open>Buffer\<close> is a sequence of bytes. JavaScript strings are modelled as HOL
  strings; every string the interceptor builds itself is ASCII.
\<close>

type_synonym byte = "8 word"
type_synonym Buffer = "byte list"

definition Buffer_from :: "string \<Rightarrow> Buffer" where
  \<comment> \<open>\<open>Buffer.from(str)\<close>: the UTF-8 encoding, one byte for a code point below 128 and two
      bytes for the others a \<open>char\<close> can hold.\<close>
  "Buffer_from s =
     concat (map (\<lambda>c. if (of_char c :: nat) < 128 then [of_char c]
                        else [of_nat (192 + (of_char c :: nat) div 64),
                              of_nat (128 + (of_char c :: nat) mod 64)]) s)"

definition toString_ascii :: "Buffer \<Rightarrow> string" where
  \<comment> \<open>\<open>buf.toString('ascii')\<close>: the highest bit of every byte is cleared.\<close>
  "toString_ascii b = map (\<lambda>x. char_of (unat (take_bit 7 x))) b"

fun indexOf :: "Buffer \<Rightarrow> byte \<Rightarrow> nat option" where
  \<comment> \<open>\<open>buf.indexOf(c)\<close> for a one-byte needle; \<open>None\<close> is the result \<open>-1\<close>.\<close>
  "indexOf [] c = None"
| "indexOf (x # xs) c = (if x = c then Some 0 else map_option Suc (indexOf xs c))"

fun digits :: "nat \<Rightarrow> string" where
  \<comment> \<open>the decimal text of a non-negative integer, as \<open>Array.prototype.join\<close> prints it\<close>
  "digits n = (if n < 10 then [char_of (48 + n)] else digits (n div 10) @ [char_of (48 + n mod 10)])"

fun join :: "nat list \<Rightarrow> string \<Rightarrow> string" where
  \<comment> \<open>\<open>numbers.join(sep)\<close>\<close>
  "join [] sep = []"
| "join [n] sep = digits n"
| "join (n # m # ns) sep = digits n @ sep @ join (m # ns) sep"

section \<open>The imported package \<open>proxy-protocol-js\<close>\<close>

text \<open>
  \<open>index.ts\<close> imports the header codec from the package \<open>proxy-protocol-js\<close>, which is
  not part of the repository. The objects the interceptor reads from it are modelled by
  the types below; its functions are the fields of the record \<open>codec\<close>, a parameter of
  every definition that calls them. A parser that throws returns \<open>None\<close>.

  \<open>ProxyProtocolVersion\<close> has the three members the interceptor tests for;
  \<open>Unlisted\<close> stands for any other result of \<open>identify\<close>, the case the last line of
  \<open>isHeaderCompleted\<close> handles. \<open>OtherProxyAddress\<close> stands for every address object
  that is not an instance of \<open>IPv4ProxyAddress\<close>.
\<close>

datatype ProxyProtocolVersion = V1 | V2 | NOT | Unlisted

record Peer =
  ipAddress :: string
  port :: nat

record V1ProxyProtocol =
  source :: Peer
  destination :: Peer

record IPv4Address =
  address :: "nat list"

datatype ProxyAddress =
    IPv4ProxyAddress IPv4Address nat IPv4Address nat
      \<comment> \<open>\<open>sourceAddress\<close>, \<open>sourcePort\<close>, \<open>destinationAddress\<close>, \<open>destinationPort\<close>\<close>
  | OtherProxyAddress

record V2ProxyProtocol =
  proxyAddress :: ProxyAddress

record codec =
  identify :: "Buffer \<Rightarrow> ProxyProtocolVersion"
    \<comment> \<open>\<open>ProxyProtocolIdentifier.identify(buf)\<close>\<close>
  toString :: "Buffer \<Rightarrow> string"
    \<comment> \<open>\<open>buf.toString()\<close>, the runtime's UTF-8 decoding, whose result is what \<open>V1_parse\<close> reads\<close>
  V1_parse :: "string \<Rightarrow> V1ProxyProtocol option"
    \<comment> \<open>\<open>V1ProxyProtocol.parse(str)\<close>\<close>
  V2_parse :: "Buffer \<Rightarrow> V2ProxyProtocol option"
    \<comment> \<open>\<open>V2ProxyProtocol.parse(buf)\<close>\<close>

section \<open>Options\<close>

record ProxyOptions =
  strict :: bool
  ignoreStrictExceptions :: bool
  overrideRemote :: bool
  timeout :: "nat option"

definition defaults :: ProxyOptions where
  "defaults = \<lparr>strict = True, ignoreStrictExceptions = False, overrideRemote = True,
               timeout = None\<rparr>"

text \<open>
  The wrapper's second argument is a \<open>Partial<ProxyOptions>\<close> or missing. Each key of
  such an object is absent, present with the value \<open>undefined\<close> (the type allows it), or
  present with a value. The spread \<open>{...defaults, ..._options}\<close> copies every key the
  object has over the default, an \<open>undefined\<close> one included; the fields of the merged
  object are therefore values or \<open>undefined\<close> (\<open>None\<close>).
\<close>

datatype 'a key = Missing | Undefined | Value 'a

record PartialProxyOptions =
  strict_key :: "bool key"
  ignoreStrictExceptions_key :: "bool key"
  overrideRemote_key :: "bool key"
  timeout_key :: "nat key"

record MergedOptions =
  strict_value :: "bool option"
  ignoreStrictExceptions_value :: "bool option"
  overrideRemote_value :: "bool option"
  timeout_value :: "nat option"

definition spread :: "'a option \<Rightarrow> 'a key \<Rightarrow> 'a option" where
  \<comment> \<open>one field of \<open>{...defaults, ..._options}\<close>: the default's field, then the caller's key\<close>
  "spread d k = (case k of Missing \<Rightarrow> d | Undefined \<Rightarrow> None | Value v \<Rightarrow> Some v)"

definition mergeOptions :: "PartialProxyOptions option \<Rightarrow> MergedOptions" where
  "mergeOptions given =
     (case given of
        None \<Rightarrow>
          \<lparr>strict_value = Some (strict defaults),
           ignoreStrictExceptions_value = Some (ignoreStrictExceptions defaults),
           overrideRemote_value = Some (overrideRemote defaults),
           timeout_value = timeout defaults\<rparr>
      | Some g \<Rightarrow>
          \<lparr>strict_value = spread (Some (strict defaults)) (strict_key g),
           ignoreStrictExceptions_value =
             spread (Some (ignoreStrictExceptions defaults)) (ignoreStrictExceptions_key g),
           overrideRemote_value = spread (Some (overrideRemote defaults)) (overrideRemote_key g),
           timeout_value = spread (timeout defaults) (timeout_key g)\<rparr>)"

definition truthy :: "bool option \<Rightarrow> bool" where
  \<comment> \<open>how a condition reads a field that is a boolean or \<open>undefined\<close>\<close>
  "truthy v = (v = Some True)"

definition tested :: "MergedOptions \<Rightarrow> ProxyOptions" where
  \<comment> \<open>The interceptor reads \<open>strict\<close>, \<open>ignoreStrictExceptions\<close> and \<open>overrideRemote\<close> of the
      merged object in conditions only: the definitions of the interceptor below take
      these truth values, and the timeout.\<close>
  "tested m =
     \<lparr>strict = truthy (strict_value m),
      ignoreStrictExceptions = truthy (ignoreStrictExceptions_value m),
      overrideRemote = truthy (overrideRemote_value m),
      timeout = timeout_value m\<rparr>"

section \<open>Decoding the header\<close>

record ProxyHeaders =
  remoteAddress :: string
  remotePort :: nat
  localAddress :: string
  localPort :: nat

definition v1Header :: string where
  "v1Header = ''PROXY''"

definition v2Header :: Buffer where
  "v2Header = [0x0D, 0x0A, 0x0D, 0x0A, 0x00, 0x0D, 0x0A, 0x51, 0x55, 0x49, 0x54, 0x0A]"

definition mapV1ProxyInfo :: "V1ProxyProtocol \<Rightarrow> ProxyHeaders" where
  "mapV1ProxyInfo info =
     \<lparr>remoteAddress = ipAddress (source info), remotePort = port (source info),
      localAddress = ipAddress (destination info), localPort = port (destination info)\<rparr>"

definition mapV2ProxyInfo :: "V2ProxyProtocol \<Rightarrow> ProxyHeaders option" where
  "mapV2ProxyInfo info =
     (case proxyAddress info of
        OtherProxyAddress \<Rightarrow> None
      | IPv4ProxyAddress sourceAddress sourcePort destinationAddress destinationPort \<Rightarrow>
          Some \<lparr>remoteAddress = join (address sourceAddress) ''.'', remotePort = sourcePort,
                localAddress = join (address destinationAddress) ''.'',
                localPort = destinationPort\<rparr>)"

definition addrLength :: "Buffer \<Rightarrow> nat option" where
  \<comment> \<open>\<open>buf[15] + buf[14] * 256\<close>; reading past the end gives \<open>undefined\<close> and the sum is
      \<open>NaN\<close>, here \<open>None\<close>.\<close>
  "addrLength b =
     (if 15 < length b then Some (unat (b ! 15) + unat (b ! 14) * 256) else None)"

definition sliceAfterV2 :: "Buffer \<Rightarrow> Buffer" where
  \<comment> \<open>\<open>buf.slice(16 + addrLength)\<close>; \<open>slice(NaN)\<close> starts at 0.\<close>
  "sliceAfterV2 b = (case addrLength b of None \<Rightarrow> b | Some n \<Rightarrow> drop (16 + n) b)"

definition isHeaderCompleted :: "codec \<Rightarrow> Buffer \<Rightarrow> bool \<times> ProxyHeaders option \<times> Buffer" where
  "isHeaderCompleted lib b =
     (case identify lib b of
        V1 \<Rightarrow>
          (case indexOf b 0x0D of
             None \<Rightarrow> (True, None, b)
           | Some endOfBufferIndex \<Rightarrow>
               (case V1_parse lib (toString lib b) of
                  Some proxyInfo \<Rightarrow>
                    (True, Some (mapV1ProxyInfo proxyInfo), drop (endOfBufferIndex + 2) b)
                | None \<Rightarrow> (True, None, b)))
      | V2 \<Rightarrow>
          (case V2_parse lib b of
             Some proxyInfo \<Rightarrow> (True, mapV2ProxyInfo proxyInfo, sliceAfterV2 b)
           | None \<Rightarrow> (True, None, b))
      | NOT \<Rightarrow> (True, None, b)
      | Unlisted \<Rightarrow> (False, None, b))"

declare digits.simps [simp del]

section \<open>The socket and the interceptor's variables\<close>

text \<open>
  One record holds what \<open>connectionListener\<close> works on: the socket's state as far as the
  interceptor reads or writes it, the variables of the closure (\<open>history\<close>,
  \<open>protocolError\<close>, \<open>isReadable\<close>, \<open>buf\<close>), and the calls made on the socket and the
  server, oldest first (\<open>effects\<close>). What the listeners of a really emitted event do is
  outside the model.
\<close>

datatype jsvalue = Str string | Num nat

record descriptor =
  enumerable :: bool
  configurable :: bool
  getter :: jsvalue
    \<comment> \<open>the value the \<open>get\<close> function returns; \<open>defineProperty\<close> passes no \<open>set\<close>, so
        the property is an accessor that can be read and not assigned\<close>

type_synonym event = "string \<times> string list"
  \<comment> \<open>\<open>[event, ...rest]\<close>: the event's name and its arguments\<close>

record ProtocolError =
  message :: string
  header :: "string option"

datatype effect =
    RealEmit event
      \<comment> \<open>\<open>realEmit.apply(socket, [event, ...rest])\<close>\<close>
  | CallOnend
      \<comment> \<open>\<open>socket.onend()\<close>\<close>
  | CallOndata Buffer
      \<comment> \<open>\<open>socket.ondata(data, 0, data.length)\<close>\<close>
  | SocketDestroy "ProtocolError option"
      \<comment> \<open>\<open>socket.destroy(error)\<close>; \<open>None\<close> is the argument \<open>undefined\<close>\<close>
  | SocketUnshift Buffer
      \<comment> \<open>\<open>socket.unshift(bufferRest)\<close>\<close>
  | SocketSetTimeout nat
      \<comment> \<open>\<open>socket.setTimeout(msecs, () => socket.end())\<close>\<close>
  | ProxiedConnection
      \<comment> \<open>\<open>self.emit('proxiedConnection', socket)\<close>\<close>

record connection =
  unread :: "Buffer list"
    \<comment> \<open>the chunks \<open>socket.read()\<close> will return, in order\<close>
  emitRestored :: bool
    \<comment> \<open>\<open>socket.emit === realEmit\<close>\<close>
  listening :: bool
    \<comment> \<open>the interceptor's \<open>'error'\<close> and \<open>'readable'\<close> listeners are attached\<close>
  ownProperties :: "(string \<times> descriptor) list"
    \<comment> \<open>the properties \<open>Object.defineProperty\<close> has put on the socket\<close>
  peerAddress :: string
  peerPort :: nat
    \<comment> \<open>what the socket's built-in \<open>remoteAddress\<close> and \<open>remotePort\<close> return\<close>
  socketTimeout :: "nat option"
    \<comment> \<open>\<open>socket.timeout\<close>\<close>
  onend :: bool
  ondata :: bool
    \<comment> \<open>whether the socket has the legacy \<open>onend\<close> and \<open>ondata\<close> hooks\<close>
  history :: "event list option"
  protocolError :: bool
  isReadable :: bool
  buf :: Buffer
  effects :: "effect list"

definition perform :: "effect \<Rightarrow> connection \<Rightarrow> connection" where
  "perform e c = c\<lparr>effects := effects c @ [e]\<rparr>"

definition socket_read :: "connection \<Rightarrow> Buffer option \<times> connection" where
  \<comment> \<open>\<open>socket.read()\<close>: the next chunk, or \<open>null\<close> when nothing is buffered\<close>
  "socket_read c =
     (case unread c of
        [] \<Rightarrow> (None, c)
      | chunk # rest \<Rightarrow> (Some chunk, c\<lparr>unread := rest\<rparr>))"

definition socket_unshift :: "Buffer \<Rightarrow> connection \<Rightarrow> connection" where
  \<comment> \<open>\<open>socket.unshift(chunk)\<close>: the chunk goes to the front of the unread data; the
      stream ignores an empty one.\<close>
  "socket_unshift chunk c =
     perform (SocketUnshift chunk)
       (if chunk = [] then c else c\<lparr>unread := chunk # unread c\<rparr>)"

subsection \<open>Properties of the socket\<close>

definition defineProperty :: "string \<Rightarrow> jsvalue \<Rightarrow> connection \<Rightarrow> connection" where
  "defineProperty propertyName v c =
     c\<lparr>ownProperties :=
         AList.update propertyName \<lparr>enumerable = False, configurable = True, getter = v\<rparr>
           (ownProperties c)\<rparr>"

definition readProperty :: "connection \<Rightarrow> string \<Rightarrow> jsvalue option" where
  \<comment> \<open>\<open>socket[name]\<close>: an own property hides the built-in accessor; \<open>None\<close> is
      \<open>undefined\<close>.\<close>
  "readProperty c name =
     (case map_of (ownProperties c) name of
        Some d \<Rightarrow> Some (getter d)
      | None \<Rightarrow>
          if name = ''remoteAddress'' then Some (Str (peerAddress c))
          else if name = ''remotePort'' then Some (Num (peerPort c))
          else None)"

definition defineSocketProperties :: "ProxyHeaders \<Rightarrow> bool \<Rightarrow> connection \<Rightarrow> connection" where
  "defineSocketProperties proxyInfo override c =
     (let c1 = defineProperty ''clientAddress'' (Str (remoteAddress proxyInfo)) c;
          c2 = defineProperty ''proxyAddress'' (Str (localAddress proxyInfo)) c1;
          c3 = defineProperty ''clientPort'' (Num (remotePort proxyInfo)) c2;
          c4 = defineProperty ''proxyPort'' (Num (localPort proxyInfo)) c3
      in if override
         then defineProperty ''remotePort'' (Num (remotePort proxyInfo))
                (defineProperty ''remoteAddress'' (Str (remoteAddress proxyInfo)) c4)
         else c4)"

section \<open>The interceptor\<close>

definition connectionListener :: "ProxyOptions \<Rightarrow> nat option \<Rightarrow> connection \<Rightarrow> connection" where
  \<comment> \<open>The start of \<open>connectionListener\<close> on a newly accepted socket: the closure's
      variables, the replaced \<open>emit\<close>, the two listeners. \<open>serverTimeout\<close> is
      \<open>self.timeout\<close>; a timeout of 0 is falsy.\<close>
  "connectionListener options serverTimeout socket =
     (let t = (case serverTimeout of Some v \<Rightarrow> Some v | None \<Rightarrow> timeout options);
          c = (case t of
                 Some msecs \<Rightarrow>
                   if msecs \<noteq> 0 \<and> socketTimeout socket = None
                   then perform (SocketSetTimeout msecs) (socket\<lparr>socketTimeout := Some msecs\<rparr>)
                   else socket
               | None \<Rightarrow> socket)
      in c\<lparr>history := Some [], protocolError := False, isReadable := False,
            emitRestored := False, listening := True, buf := []\<rparr>)"

fun replay :: "bool \<Rightarrow> event list \<Rightarrow> effect list" where
  \<comment> \<open>the loop of \<open>restore\<close> over \<open>history\<close>\<close>
  "replay hasOnend [] = []"
| "replay hasOnend (e # es) =
     RealEmit e # (if fst e = ''end'' \<and> hasOnend then [CallOnend] else []) @ replay hasOnend es"

definition restore :: "connection \<Rightarrow> connection" where
  "restore c =
     (case history c of
        None \<Rightarrow> c
      | Some h \<Rightarrow>
          if emitRestored c then c
          else c\<lparr>emitRestored := True, history := None,
                 effects := effects c @ replay (onend c) h\<rparr>)"

definition destroyArgument :: "ProxyOptions \<Rightarrow> bool \<Rightarrow> ProtocolError \<Rightarrow> ProtocolError option" where
  \<comment> \<open>\<open>wasStrict ? (!options.ignoreStrictExceptions && _error) || undefined : _error\<close>\<close>
  "destroyArgument options wasStrict err =
     (if wasStrict then (if ignoreStrictExceptions options then None else Some err)
      else Some err)"

definition destroy :: "ProxyOptions \<Rightarrow> string \<Rightarrow> bool \<Rightarrow> connection \<Rightarrow> connection" where
  "destroy options error wasStrict c =
     (let err = \<lparr>message = error, header = Some (toString_ascii (buf c))\<rparr>;
          c1 = c\<lparr>protocolError := True\<rparr>;
          c2 = perform (SocketDestroy (destroyArgument options wasStrict err)) c1
      in restore c2)"

datatype flow = Return connection | Continue connection
  \<comment> \<open>how one pass of the \<open>while\<close> body ends: at a \<open>return\<close>, or at its last line\<close>

definition prefixMismatch :: "Buffer \<Rightarrow> bool" where
  \<comment> \<open>the condition of the first \<open>if\<close> in the loop\<close>
  "prefixMismatch b =
     (max (length v1Header) (length v2Header) \<le> length b \<and>
      take (length v1Header) b \<noteq> Buffer_from v1Header \<and>
      take (length v2Header) b \<noteq> v2Header)"

definition resolve :: "ProxyOptions \<Rightarrow> ProxyHeaders option \<Rightarrow> Buffer \<Rightarrow> connection \<Rightarrow> connection" where
  \<comment> \<open>the body of \<open>if (headerCompleted || protocolError)\<close>\<close>
  "resolve options proxyInfo bufferRest c =
     (let c1 = c\<lparr>listening := False\<rparr> in
      if strict options \<and> proxyInfo = None
      then destroy options ''PROXY protocol malformed header'' True c1
      else
        (let c2 = (case proxyInfo of
                     Some info \<Rightarrow>
                       if protocolError c1 then c1
                       else defineSocketProperties info (overrideRemote options) c1
                   | None \<Rightarrow> c1);
             c3 = socket_unshift bufferRest (c2\<lparr>emitRestored := True\<rparr>);
             c4 = restore (perform ProxiedConnection c3)
         in if ondata c4
            then (case socket_read c4 of
                    (Some d, c5) \<Rightarrow> perform (CallOndata d) c5
                  | (None, c5) \<Rightarrow> c5)
            else c4))"

definition whileBody :: "codec \<Rightarrow> ProxyOptions \<Rightarrow> Buffer \<Rightarrow> connection \<Rightarrow> flow" where
  \<comment> \<open>one pass of \<open>while (chunk !== null)\<close> up to, not including, its last line
      \<open>chunk = socket.read()\<close>\<close>
  "whileBody lib options chunk c =
     (let c1 = c\<lparr>buf := buf c @ chunk\<rparr>;
          c2 = (if prefixMismatch (buf c1) then c1\<lparr>protocolError := True\<rparr> else c1)
      in if prefixMismatch (buf c1) \<and> strict options
         then Return (destroy options ''non-PROXY protocol connection'' True c2)
         else
           (case isHeaderCompleted lib (buf c2) of
              (headerCompleted, proxyInfo, bufferRest) \<Rightarrow>
                if headerCompleted \<or> protocolError c2
                then Return (resolve options proxyInfo bufferRest c2)
                else if 107 < length (buf c2)
                then Return (destroy options ''PROXY header too long'' False c2)
                else Continue c2))"

lemma whileBody_Continue_unread:
  "whileBody lib options chunk c = Continue c' \<Longrightarrow> unread c' = unread c"
  by (auto simp: whileBody_def Let_def split: prod.splits if_splits)

function whileChunk :: "codec \<Rightarrow> ProxyOptions \<Rightarrow> Buffer option \<Rightarrow> connection \<Rightarrow> connection" where
  "whileChunk lib options None c = c"
| "whileChunk lib options (Some chunk) c =
     (case whileBody lib options chunk c of
        Return c' \<Rightarrow> c'
      | Continue c' \<Rightarrow> whileChunk lib options (fst (socket_read c')) (snd (socket_read c')))"
  by pat_completeness auto
termination
proof (relation "measure (\<lambda>(lib, options, chunk, c).
                  case chunk of None \<Rightarrow> 0 | Some x \<Rightarrow> Suc (length (unread c)))")
  show "wf (measure (\<lambda>(lib, options, chunk, c).
              case chunk of None \<Rightarrow> 0 | Some x \<Rightarrow> Suc (length (unread c))))"
    by simp
next
  fix lib options chunk c c'
  assume "whileBody lib options chunk c = Continue c'"
  then have "unread c' = unread c"
    by (rule whileBody_Continue_unread)
  then show "((lib, options, fst (socket_read c'), snd (socket_read c')),
              (lib, options, Some chunk, c))
             \<in> measure (\<lambda>(lib, options, chunk, c).
                  case chunk of None \<Rightarrow> 0 | Some x \<Rightarrow> Suc (length (unread c)))"
    by (cases "unread c") (simp_all add: socket_read_def)
qed

definition onReadable :: "codec \<Rightarrow> ProxyOptions \<Rightarrow> connection \<Rightarrow> connection" where
  "onReadable lib options c =
     (case socket_read c of
        (chunk, c1) \<Rightarrow>
          if chunk = None \<and> buf c1 = []
          then perform ProxiedConnection (c1\<lparr>emitRestored := True\<rparr>)
          else whileChunk lib options chunk c1)"

definition emit :: "codec \<Rightarrow> ProxyOptions \<Rightarrow> event \<Rightarrow> connection \<Rightarrow> connection" where
  \<comment> \<open>the function \<open>connectionListener\<close> puts in place of \<open>socket.emit\<close>\<close>
  "emit lib options e c =
     (let c1 = c\<lparr>history := map_option (\<lambda>h. h @ [e]) (history c)\<rparr> in
      if fst e = ''readable'' then onReadable lib options (c1\<lparr>isReadable := True\<rparr>)
      else
        (let c2 = (if fst e = ''end'' \<and> \<not> isReadable c1
                   then restore (perform ProxiedConnection c1) else c1)
         in if fst e = ''timeout'' then perform (RealEmit (fst e, [])) c2 else c2))"

definition socket_emit :: "codec \<Rightarrow> ProxyOptions \<Rightarrow> event \<Rightarrow> connection \<Rightarrow> connection" where
  \<comment> \<open>\<open>socket.emit(event, ...rest)\<close> as the runtime calls it: whichever function the
      property holds at that moment\<close>
  "socket_emit lib options e c =
     (if emitRestored c then perform (RealEmit e) c else emit lib options e c)"

definition arrive :: "Buffer \<Rightarrow> connection \<Rightarrow> connection" where
  \<comment> \<open>the runtime buffers a chunk received from the peer\<close>
  "arrive chunk c = c\<lparr>unread := unread c @ [chunk]\<rparr>"

subsection \<open>Reading the log of calls\<close>

definition destroyed :: "connection \<Rightarrow> ProtocolError option list" where
  \<comment> \<open>the arguments of the calls of \<open>socket.destroy\<close> so far\<close>
  "destroyed c = concat (map (\<lambda>e. case e of SocketDestroy p \<Rightarrow> [p] | _ \<Rightarrow> []) (effects c))"

definition pushedBack :: "connection \<Rightarrow> Buffer list" where
  \<comment> \<open>the arguments of the calls of \<open>socket.unshift\<close> so far\<close>
  "pushedBack c = concat (map (\<lambda>e. case e of SocketUnshift b \<Rightarrow> [b] | _ \<Rightarrow> []) (effects c))"

definition emitted :: "connection \<Rightarrow> event list" where
  \<comment> \<open>the events given to \<open>realEmit\<close> so far\<close>
  "emitted c = concat (map (\<lambda>e. case e of RealEmit ev \<Rightarrow> [ev] | _ \<Rightarrow> []) (effects c))"

definition announced :: "connection \<Rightarrow> nat" where
  \<comment> \<open>how often \<open>'proxiedConnection'\<close> has been emitted on the server\<close>
  "announced c = length (filter (\<lambda>e. e = ProxiedConnection) (effects c))"

section \<open>A codec to run the interceptor on\<close>

text \<open>
  The theorems below hold for every \<open>codec\<close>. To evaluate the interceptor on concrete
  bytes the parameter needs a value: \<open>reference\<close> follows the header formats of the PROXY
  protocol (version 1: the line \<open>PROXY <TCP4|TCP6|UNKNOWN> <src> <dst> <sport> <dport>\<close>
  ended by CR LF; version 2: the 12-byte signature, a version and command byte, an
  address family and transport byte, a 16-bit big-endian length and the address block),
  which is what the package implements. Its \<open>identify\<close> answers by the two signatures
  alone, and never \<open>Unlisted\<close>.
\<close>

definition expect :: "string \<Rightarrow> string \<Rightarrow> string option" where
  \<comment> \<open>the text after a literal prefix\<close>
  "expect lit s = (if take (length lit) s = lit then Some (drop (length lit) s) else None)"

definition field :: "(char \<Rightarrow> bool) \<Rightarrow> string \<Rightarrow> (string \<times> string) option" where
  \<comment> \<open>the longest non-empty run of accepted characters, and the text after it\<close>
  "field accepted s =
     (case takeWhile accepted s of
        [] \<Rightarrow> None
      | f # fs \<Rightarrow> Some (f # fs, dropWhile accepted s))"

definition isDigit :: "char \<Rightarrow> bool" where
  "isDigit ch = ((48::nat) \<le> of_char ch \<and> (of_char ch :: nat) \<le> 57)"

definition number :: "string \<Rightarrow> nat" where
  "number ds = foldl (\<lambda>n d. 10 * n + (of_char d - 48)) 0 ds"

definition reference_V1_parse :: "string \<Rightarrow> V1ProxyProtocol option" where
  "reference_V1_parse s =
     (case expect ''PROXY '' s of None \<Rightarrow> None | Some s1 \<Rightarrow>
      case field (\<lambda>ch. ch \<noteq> CHR '' '') s1 of None \<Rightarrow> None | Some (inetProtocol, s2) \<Rightarrow>
      if inetProtocol \<in> {''TCP4'', ''TCP6'', ''UNKNOWN''} then
       (case expect '' '' s2 of None \<Rightarrow> None | Some s3 \<Rightarrow>
        case field (\<lambda>ch. ch \<noteq> CHR '' '') s3 of None \<Rightarrow> None | Some (src, s4) \<Rightarrow>
        case expect '' '' s4 of None \<Rightarrow> None | Some s5 \<Rightarrow>
        case field (\<lambda>ch. ch \<noteq> CHR '' '') s5 of None \<Rightarrow> None | Some (dst, s6) \<Rightarrow>
        case expect '' '' s6 of None \<Rightarrow> None | Some s7 \<Rightarrow>
        case field isDigit s7 of None \<Rightarrow> None | Some (srcPort, s8) \<Rightarrow>
        case expect '' '' s8 of None \<Rightarrow> None | Some s9 \<Rightarrow>
        case field isDigit s9 of None \<Rightarrow> None | Some (dstPort, s10) \<Rightarrow>
        case expect [CHR 0x0D, CHR 0x0A] s10 of None \<Rightarrow> None | Some s11 \<Rightarrow>
          Some \<lparr>source = \<lparr>ipAddress = src, port = number srcPort\<rparr>,
                destination = \<lparr>ipAddress = dst, port = number dstPort\<rparr>\<rparr>)
      else None)"

definition addressBlock :: "nat \<Rightarrow> Buffer \<Rightarrow> ProxyAddress option" where
  \<comment> \<open>the address block of a version 2 header by address family: 1 is IPv4 (12 bytes),
      2 is IPv6 (36 bytes), 3 is a UNIX socket (216 bytes), 0 is unspecified\<close>
  "addressBlock family block =
     (if family = 1 then
        (if length block < 12 then None
         else Some (IPv4ProxyAddress
                 \<lparr>address = map unat (take 4 block)\<rparr>
                 (unat (block ! 8) * 256 + unat (block ! 9))
                 \<lparr>address = map unat (take 4 (drop 4 block))\<rparr>
                 (unat (block ! 10) * 256 + unat (block ! 11))))
      else if family = 2 then (if length block < 36 then None else Some OtherProxyAddress)
      else if family = 3 then (if length block < 216 then None else Some OtherProxyAddress)
      else if family = 0 then Some OtherProxyAddress
      else None)"

definition reference_V2_parse :: "Buffer \<Rightarrow> V2ProxyProtocol option" where
  "reference_V2_parse b =
     (if take 12 b = v2Header \<and> 16 \<le> length b then
        (let versionAndCommand = unat (b ! 12);
             familyAndTransport = unat (b ! 13);
             len = unat (b ! 14) * 256 + unat (b ! 15)
         in if versionAndCommand div 16 = 2 \<and> versionAndCommand mod 16 \<le> 1 \<and>
               familyAndTransport mod 16 \<le> 2 \<and> 16 + len \<le> length b
            then map_option (\<lambda>a. \<lparr>proxyAddress = a\<rparr>)
                   (addressBlock (familyAndTransport div 16) (take len (drop 16 b)))
            else None)
      else None)"

definition reference :: codec where
  "reference =
     \<lparr>identify = (\<lambda>b. if take 12 b = v2Header then V2
                       else if take 5 b = Buffer_from ''PROXY'' then V1 else NOT),
      toString = map (\<lambda>x. char_of (unat x)),
      V1_parse = reference_V1_parse,
      V2_parse = reference_V2_parse\<rparr>"

definition undecided :: codec where
  \<comment> \<open>a codec whose \<open>identify\<close> never answers with one of the three listed versions, to
      reach the last line of \<open>isHeaderCompleted\<close>\<close>
  "undecided = reference\<lparr>identify := (\<lambda>b. Unlisted)\<rparr>"

definition accepted :: "string \<Rightarrow> nat \<Rightarrow> connection" where
  \<comment> \<open>a socket as the server hands it to \<open>connectionListener\<close>: nothing received yet, its
      own \<open>emit\<close>, no timeout, no legacy hooks; the peer is the given endpoint\<close>
  "accepted peer peerport =
     \<lparr>unread = [], emitRestored = True, listening = False, ownProperties = [],
      peerAddress = peer, peerPort = peerport, socketTimeout = None, onend = False,
      ondata = False, history = None, protocolError = False, isReadable = False, buf = [],
      effects = []\<rparr>"

section \<open>Concrete connections and inputs\<close>

text \<open>The values the closed theorems below are evaluated on.\<close>

definition permissive :: ProxyOptions where
  "permissive = defaults\<lparr>strict := False\<rparr>"

definition ignoring :: ProxyOptions where
  "ignoring = defaults\<lparr>ignoreStrictExceptions := True\<rparr>"

definition intercepted :: connection where
  \<comment> \<open>a connection from 10.0.0.7:40000 right after \<open>connectionListener\<close> has run\<close>
  "intercepted = connectionListener defaults None (accepted ''10.0.0.7'' 40000)"

definition sampleHeaders :: ProxyHeaders where
  "sampleHeaders = \<lparr>remoteAddress = ''192.168.0.254'', remotePort = 3350,
                     localAddress = ''192.168.0.1'', localPort = 443\<rparr>"

definition request :: Buffer where
  "request = Buffer_from ''GET / HTTP/1.1''"

definition v1Line :: Buffer where
  \<comment> \<open>a version 1 header without its CR LF\<close>
  "v1Line = Buffer_from ''PROXY TCP4 192.168.0.254 192.168.0.1 3350 443''"

definition v2Inet :: Buffer where
  \<comment> \<open>a version 2 header: command LOCAL, a datagram over IPv4, 12 address bytes:
      10.10.10.1:12456 to 10.10.10.254:80\<close>
  "v2Inet = v2Header @ [0x20, 0x12, 0x00, 0x0C,
                        10, 10, 10, 1, 10, 10, 10, 254, 0x30, 0xA8, 0x00, 0x50]"

definition v2Inet6 :: Buffer where
  \<comment> \<open>a version 2 header: command PROXY, a stream over IPv6, 36 address bytes:
      [::1]:12456 to [::2]:80\<close>
  "v2Inet6 = v2Header @ [0x21, 0x21, 0x00, 0x24] @
             replicate 15 0 @ [1] @ replicate 15 0 @ [2] @ [0x30, 0xA8, 0x00, 0x50]"

definition hack :: Buffer where
  "hack = Buffer_from ''PROXY HACK ATTEMPT'' @ [0x0D, 0x0A]"

definition telnet :: Buffer where
  "telnet = Buffer_from ''TELNET BABY''"

definition hello :: Buffer where
  "hello = Buffer_from ''HELLO''"

definition pro :: Buffer where
  "pro = Buffer_from ''PRO''"

definition partialLine :: Buffer where
  \<comment> \<open>the first bytes of a version 1 header, cut before its end\<close>
  "partialLine = Buffer_from ''PROXY TCP4 192.168.0.254 ''"

definition letters :: "nat \<Rightarrow> Buffer" where
  \<comment> \<open>\<open>n\<close> times the letter A\<close>
  "letters n = replicate n 0x41"

definition longLine :: "nat \<Rightarrow> Buffer" where
  \<comment> \<open>\<open>PROXY\<close> and \<open>n\<close> times the letter A: a line that does not end\<close>
  "longLine n = Buffer_from ''PROXY'' @ letters n"

section \<open>What a pass over the socket's data can add to the calls of \<open>socket.destroy\<close>\<close>

definition closes :: "ProxyOptions \<Rightarrow> connection \<Rightarrow> connection \<Rightarrow> bool" where
  \<comment> \<open>from \<open>c\<close> to \<open>r\<close> the socket was destroyed at most once, by one of the three calls
      of \<open>destroy\<close> in \<open>onReadable\<close>\<close>
  "closes options c r =
     (destroyed r = destroyed c \<or>
      (\<exists>error wasStrict.
         (error, wasStrict) \<in> {(''non-PROXY protocol connection'', True),
                                 (''PROXY protocol malformed header'', True),
                                 (''PROXY header too long'', False)} \<and>
         destroyed r = destroyed c @
           [destroyArgument options wasStrict
              \<lparr>message = error, header = Some (toString_ascii (buf r))\<rparr>]))"

section \<open>Lemmas about the interceptor\<close>

lemma destroyed_simps:
  "destroyed (perform e c) = destroyed c @ (case e of SocketDestroy p \<Rightarrow> [p] | _ \<Rightarrow> [])"
  by (simp add: destroyed_def perform_def)

lemma pushedBack_perform:
  "pushedBack (perform e c) = pushedBack c @ (case e of SocketUnshift b \<Rightarrow> [b] | _ \<Rightarrow> [])"
  by (simp add: pushedBack_def perform_def)

lemma emitted_perform:
  "emitted (perform e c) = emitted c @ (case e of RealEmit ev \<Rightarrow> [ev] | _ \<Rightarrow> [])"
  by (simp add: emitted_def perform_def)

lemma replay_RealEmit:
  "concat (map (\<lambda>e. case e of RealEmit ev \<Rightarrow> [ev] | _ \<Rightarrow> []) (replay oe h)) = h"
  by (induction h) simp_all

lemma replay_SocketDestroy:
  "concat (map (\<lambda>e. case e of SocketDestroy p \<Rightarrow> [p] | _ \<Rightarrow> []) (replay oe h)) = []"
  by (induction h) simp_all

lemma replay_SocketUnshift:
  "concat (map (\<lambda>e. case e of SocketUnshift p \<Rightarrow> [p] | _ \<Rightarrow> []) (replay oe h)) = []"
  by (induction h) simp_all

lemma replay_ProxiedConnection:
  "filter (\<lambda>e. e = ProxiedConnection) (replay oe h) = []"
  by (induction h) simp_all

lemma restore_destroyed: "destroyed (restore c) = destroyed c"
  by (simp add: restore_def destroyed_def replay_SocketDestroy split: option.splits)

lemma restore_pushedBack: "pushedBack (restore c) = pushedBack c"
  by (simp add: restore_def pushedBack_def replay_SocketUnshift split: option.splits)

lemma restore_announced: "announced (restore c) = announced c"
  by (simp add: restore_def announced_def replay_ProxiedConnection split: option.splits)

lemma restore_emitted:
  "emitted (restore c) =
     emitted c @ (case history c of None \<Rightarrow> [] | Some h \<Rightarrow> if emitRestored c then [] else h)"
  by (simp add: restore_def emitted_def replay_RealEmit split: option.splits)

lemma restore_frame:
  "buf (restore c) = buf c" "ownProperties (restore c) = ownProperties c"
  "unread (restore c) = unread c" "protocolError (restore c) = protocolError c"
  "listening (restore c) = listening c" "ondata (restore c) = ondata c"
  "onend (restore c) = onend c" "isReadable (restore c) = isReadable c"
  "peerAddress (restore c) = peerAddress c" "peerPort (restore c) = peerPort c"
  by (simp_all add: restore_def split: option.splits)

lemma restore_idem: "restore (restore c) = restore c"
  by (simp add: restore_def split: option.splits)

lemma restore_emitRestored: "history c \<noteq> None \<Longrightarrow> emitRestored (restore c)"
  by (auto simp add: restore_def split: option.splits)

lemmas observations = destroyed_def pushedBack_def emitted_def announced_def

lemma observed_frame [simp]:
  "destroyed (unread_update f0 c) = destroyed c"
  "destroyed (emitRestored_update f1 c) = destroyed c"
  "destroyed (listening_update f2 c) = destroyed c"
  "destroyed (ownProperties_update f3 c) = destroyed c"
  "destroyed (peerAddress_update f4 c) = destroyed c"
  "destroyed (peerPort_update f5 c) = destroyed c"
  "destroyed (socketTimeout_update f6 c) = destroyed c"
  "destroyed (onend_update f7 c) = destroyed c"
  "destroyed (ondata_update f8 c) = destroyed c"
  "destroyed (history_update f9 c) = destroyed c"
  "destroyed (protocolError_update f10 c) = destroyed c"
  "destroyed (isReadable_update f11 c) = destroyed c"
  "destroyed (buf_update f12 c) = destroyed c"
  "pushedBack (unread_update f0 c) = pushedBack c"
  "pushedBack (emitRestored_update f1 c) = pushedBack c"
  "pushedBack (listening_update f2 c) = pushedBack c"
  "pushedBack (ownProperties_update f3 c) = pushedBack c"
  "pushedBack (peerAddress_update f4 c) = pushedBack c"
  "pushedBack (peerPort_update f5 c) = pushedBack c"
  "pushedBack (socketTimeout_update f6 c) = pushedBack c"
  "pushedBack (onend_update f7 c) = pushedBack c"
  "pushedBack (ondata_update f8 c) = pushedBack c"
  "pushedBack (history_update f9 c) = pushedBack c"
  "pushedBack (protocolError_update f10 c) = pushedBack c"
  "pushedBack (isReadable_update f11 c) = pushedBack c"
  "pushedBack (buf_update f12 c) = pushedBack c"
  "emitted (unread_update f0 c) = emitted c"
  "emitted (emitRestored_update f1 c) = emitted c"
  "emitted (listening_update f2 c) = emitted c"
  "emitted (ownProperties_update f3 c) = emitted c"
  "emitted (peerAddress_update f4 c) = emitted c"
  "emitted (peerPort_update f5 c) = emitted c"
  "emitted (socketTimeout_update f6 c) = emitted c"
  "emitted (onend_update f7 c) = emitted c"
  "emitted (ondata_update f8 c) = emitted c"
  "emitted (history_update f9 c) = emitted c"
  "emitted (protocolError_update f10 c) = emitted c"
  "emitted (isReadable_update f11 c) = emitted c"
  "emitted (buf_update f12 c) = emitted c"
  "announced (unread_update f0 c) = announced c"
  "announced (emitRestored_update f1 c) = announced c"
  "announced (listening_update f2 c) = announced c"
  "announced (ownProperties_update f3 c) = announced c"
  "announced (peerAddress_update f4 c) = announced c"
  "announced (peerPort_update f5 c) = announced c"
  "announced (socketTimeout_update f6 c) = announced c"
  "announced (onend_update f7 c) = announced c"
  "announced (ondata_update f8 c) = announced c"
  "announced (history_update f9 c) = announced c"
  "announced (protocolError_update f10 c) = announced c"
  "announced (isReadable_update f11 c) = announced c"
  "announced (buf_update f12 c) = announced c"
  by (simp_all add: observations)

lemma destroy_destroyed:
  "destroyed (destroy options error wasStrict c) =
     destroyed c @
       [destroyArgument options wasStrict
          \<lparr>message = error, header = Some (toString_ascii (buf c))\<rparr>]"
  by (simp add: destroy_def Let_def restore_def perform_def destroyed_def replay_SocketDestroy
        split: option.splits)

lemma destroy_frame:
  "buf (destroy options error wasStrict c) = buf c"
  "ownProperties (destroy options error wasStrict c) = ownProperties c"
  "unread (destroy options error wasStrict c) = unread c"
  "protocolError (destroy options error wasStrict c)"
  "pushedBack (destroy options error wasStrict c) = pushedBack c"
  "announced (destroy options error wasStrict c) = announced c"
  by (simp_all add: destroy_def Let_def restore_def perform_def observations
        replay_SocketUnshift replay_ProxiedConnection split: option.splits)

lemma destroy_emitted:
  "emitted (destroy options error wasStrict c) =
     emitted c @ (case history c of None \<Rightarrow> [] | Some h \<Rightarrow> if emitRestored c then [] else h)"
  by (simp add: destroy_def Let_def restore_def perform_def emitted_def replay_RealEmit
        split: option.splits)

lemma destroy_emitRestored:
  "history c \<noteq> None \<Longrightarrow> emitRestored (destroy options error wasStrict c)"
  by (auto simp add: destroy_def Let_def restore_def perform_def split: option.splits)

subsection \<open>One pass of the loop\<close>

lemma whileBody_mismatch_strict:
  assumes "prefixMismatch (buf c @ chunk)" and "strict options"
  shows "whileBody lib options chunk c =
           Return (destroy options ''non-PROXY protocol connection'' True
                     (c\<lparr>buf := buf c @ chunk, protocolError := True\<rparr>))"
  using assms by (simp add: whileBody_def Let_def)

lemma whileBody_mismatch_permissive:
  assumes "prefixMismatch (buf c @ chunk)" and "\<not> strict options"
    and "isHeaderCompleted lib (buf c @ chunk) = (headerCompleted, proxyInfo, bufferRest)"
  shows "whileBody lib options chunk c =
           Return (resolve options proxyInfo bufferRest
                     (c\<lparr>buf := buf c @ chunk, protocolError := True\<rparr>))"
  using assms by (simp add: whileBody_def Let_def)

lemma whileBody_completed:
  assumes "\<not> prefixMismatch (buf c @ chunk)"
    and "isHeaderCompleted lib (buf c @ chunk) = (True, proxyInfo, bufferRest)"
  shows "whileBody lib options chunk c =
           Return (resolve options proxyInfo bufferRest (c\<lparr>buf := buf c @ chunk\<rparr>))"
  using assms by (simp add: whileBody_def Let_def)

lemma whileBody_incomplete:
  assumes "\<not> prefixMismatch (buf c @ chunk)" and "\<not> protocolError c"
    and "fst (isHeaderCompleted lib (buf c @ chunk)) = False"
  shows "whileBody lib options chunk c =
           (if 107 < length (buf c @ chunk)
            then Return (destroy options ''PROXY header too long'' False
                           (c\<lparr>buf := buf c @ chunk\<rparr>))
            else Continue (c\<lparr>buf := buf c @ chunk\<rparr>))"
  using assms by (auto simp add: whileBody_def Let_def split: prod.splits)

lemma onReadable_chunk:
  assumes "unread c = chunk # later"
  shows "onReadable lib options c =
           (case whileBody lib options chunk (c\<lparr>unread := later\<rparr>) of
              Return c' \<Rightarrow> c'
            | Continue c' \<Rightarrow>
                whileChunk lib options (fst (socket_read c')) (snd (socket_read c')))"
  using assms by (simp add: onReadable_def socket_read_def)

lemma onReadable_Return:
  assumes "unread c = chunk # later"
    and "whileBody lib options chunk (c\<lparr>unread := later\<rparr>) = Return c'"
  shows "onReadable lib options c = c'"
  using assms by (simp add: onReadable_chunk)

subsection \<open>resolve\<close>

lemma resolve_strict_None:
  "strict options \<Longrightarrow>
   resolve options None bufferRest c =
     destroy options ''PROXY protocol malformed header'' True (c\<lparr>listening := False\<rparr>)"
  by (simp add: resolve_def)

lemma restore_restored: "emitRestored c \<Longrightarrow> restore c = c"
  by (simp add: restore_def split: option.splits)

text \<open>
  \<open>resolve\<close> when it does not destroy: \<open>restore\<close> does nothing there, \<open>emit\<close> being handed
  back just before.
\<close>

lemma resolve_steps:
  assumes "\<not> (strict options \<and> proxyInfo = None)"
  shows "resolve options proxyInfo bufferRest c =
           (let c2 = (case proxyInfo of
                        Some info \<Rightarrow>
                          if protocolError c then c\<lparr>listening := False\<rparr>
                          else defineSocketProperties info (overrideRemote options)
                                 (c\<lparr>listening := False\<rparr>)
                      | None \<Rightarrow> c\<lparr>listening := False\<rparr>);
                c4 = perform ProxiedConnection
                       (socket_unshift bufferRest (c2\<lparr>emitRestored := True\<rparr>))
            in if ondata c4
               then (case socket_read c4 of
                       (Some d, c5) \<Rightarrow> perform (CallOndata d) c5
                     | (None, c5) \<Rightarrow> c5)
               else c4)"
proof -
  have r: "restore (perform ProxiedConnection (socket_unshift bufferRest (x\<lparr>emitRestored := True\<rparr>))) =
           perform ProxiedConnection (socket_unshift bufferRest (x\<lparr>emitRestored := True\<rparr>))" for x
    by (rule restore_restored) (simp add: perform_def socket_unshift_def)
  show ?thesis
    using assms by (cases proxyInfo) (simp_all add: resolve_def Let_def r)
qed

lemma handover_frame:
  "effects (perform ProxiedConnection (socket_unshift b c)) =
     effects c @ [SocketUnshift b, ProxiedConnection]"
  "emitRestored (perform ProxiedConnection (socket_unshift b c)) = emitRestored c"
  "buf (perform ProxiedConnection (socket_unshift b c)) = buf c"
  "protocolError (perform ProxiedConnection (socket_unshift b c)) = protocolError c"
  "history (perform ProxiedConnection (socket_unshift b c)) = history c"
  "ondata (perform ProxiedConnection (socket_unshift b c)) = ondata c"
  "ownProperties (perform ProxiedConnection (socket_unshift b c)) = ownProperties c"
  "peerAddress (perform ProxiedConnection (socket_unshift b c)) = peerAddress c"
  "peerPort (perform ProxiedConnection (socket_unshift b c)) = peerPort c"
  "unread (perform ProxiedConnection (socket_unshift b c)) =
     (if b = [] then unread c else b # unread c)"
  by (simp_all add: perform_def socket_unshift_def)

lemma defineSocketProperties_unchanged:
  "effects (defineSocketProperties h ov c) = effects c"
  "unread (defineSocketProperties h ov c) = unread c"
  "buf (defineSocketProperties h ov c) = buf c"
  "protocolError (defineSocketProperties h ov c) = protocolError c"
  "history (defineSocketProperties h ov c) = history c"
  "ondata (defineSocketProperties h ov c) = ondata c"
  "emitRestored (defineSocketProperties h ov c) = emitRestored c"
  by (simp_all add: defineSocketProperties_def defineProperty_def Let_def)

lemma ondata_read_frame:
  "effects (case socket_read c of (Some d, c5) \<Rightarrow> perform (CallOndata d) c5 | (None, c5) \<Rightarrow> c5) =
     effects c @ (case unread c of [] \<Rightarrow> [] | d # ds \<Rightarrow> [CallOndata d])"
  "emitRestored (case socket_read c of (Some d, c5) \<Rightarrow> perform (CallOndata d) c5 | (None, c5) \<Rightarrow> c5) =
     emitRestored c"
  "buf (case socket_read c of (Some d, c5) \<Rightarrow> perform (CallOndata d) c5 | (None, c5) \<Rightarrow> c5) = buf c"
  "protocolError (case socket_read c of (Some d, c5) \<Rightarrow> perform (CallOndata d) c5 | (None, c5) \<Rightarrow> c5) =
     protocolError c"
  "history (case socket_read c of (Some d, c5) \<Rightarrow> perform (CallOndata d) c5 | (None, c5) \<Rightarrow> c5) =
     history c"
  "ownProperties (case socket_read c of (Some d, c5) \<Rightarrow> perform (CallOndata d) c5 | (None, c5) \<Rightarrow> c5) =
     ownProperties c"
  "peerAddress (case socket_read c of (Some d, c5) \<Rightarrow> perform (CallOndata d) c5 | (None, c5) \<Rightarrow> c5) =
     peerAddress c"
  "peerPort (case socket_read c of (Some d, c5) \<Rightarrow> perform (CallOndata d) c5 | (None, c5) \<Rightarrow> c5) =
     peerPort c"
  by (simp_all add: socket_read_def perform_def split: list.splits)

lemma resolve_effects:
  assumes "\<not> (strict options \<and> proxyInfo = None)"
  shows "\<exists>tail. effects (resolve options proxyInfo bufferRest c) =
                  effects c @ [SocketUnshift bufferRest, ProxiedConnection] @ tail \<and>
                (tail = [] \<or> (\<exists>d. tail = [CallOndata d]))"
  unfolding resolve_steps [OF assms] Let_def
  by (cases proxyInfo)
     (auto simp add: ondata_read_frame handover_frame defineSocketProperties_unchanged
        split: list.splits)

lemma resolve_observed:
  assumes "\<not> (strict options \<and> proxyInfo = None)"
  shows "destroyed (resolve options proxyInfo bufferRest c) = destroyed c"
    and "pushedBack (resolve options proxyInfo bufferRest c) = pushedBack c @ [bufferRest]"
    and "announced (resolve options proxyInfo bufferRest c) = Suc (announced c)"
    and "emitted (resolve options proxyInfo bufferRest c) = emitted c"
    and "emitRestored (resolve options proxyInfo bufferRest c)"
    and "buf (resolve options proxyInfo bufferRest c) = buf c"
    and "protocolError (resolve options proxyInfo bufferRest c) = protocolError c"
    and "history (resolve options proxyInfo bufferRest c) = history c"
proof -
  obtain tail where e: "effects (resolve options proxyInfo bufferRest c) =
        effects c @ [SocketUnshift bufferRest, ProxiedConnection] @ tail"
    and t: "tail = [] \<or> (\<exists>d. tail = [CallOndata d])"
    using resolve_effects [OF assms] by blast
  show "destroyed (resolve options proxyInfo bufferRest c) = destroyed c"
    using t by (auto simp add: destroyed_def e)
  show "pushedBack (resolve options proxyInfo bufferRest c) = pushedBack c @ [bufferRest]"
    using t by (auto simp add: pushedBack_def e)
  show "announced (resolve options proxyInfo bufferRest c) = Suc (announced c)"
    using t by (auto simp add: announced_def e)
  show "emitted (resolve options proxyInfo bufferRest c) = emitted c"
    using t by (auto simp add: emitted_def e)
  show "emitRestored (resolve options proxyInfo bufferRest c)"
    unfolding resolve_steps [OF assms] Let_def
    by (cases proxyInfo)
       (simp_all add: ondata_read_frame handover_frame defineSocketProperties_unchanged)
  show "buf (resolve options proxyInfo bufferRest c) = buf c"
    unfolding resolve_steps [OF assms] Let_def
    by (cases proxyInfo)
       (simp_all add: ondata_read_frame handover_frame defineSocketProperties_unchanged)
  show "protocolError (resolve options proxyInfo bufferRest c) = protocolError c"
    unfolding resolve_steps [OF assms] Let_def
    by (cases proxyInfo)
       (simp_all add: ondata_read_frame handover_frame defineSocketProperties_unchanged)
  show "history (resolve options proxyInfo bufferRest c) = history c"
    unfolding resolve_steps [OF assms] Let_def
    by (cases proxyInfo)
       (simp_all add: ondata_read_frame handover_frame defineSocketProperties_unchanged)
qed

lemma resolve_properties:
  assumes "\<not> (strict options \<and> proxyInfo = None)"
  shows "ownProperties (resolve options proxyInfo bufferRest c) =
           (case proxyInfo of
              Some info \<Rightarrow>
                if protocolError c then ownProperties c
                else ownProperties (defineSocketProperties info (overrideRemote options) c)
            | None \<Rightarrow> ownProperties c)"
    and "peerAddress (resolve options proxyInfo bufferRest c) = peerAddress c"
    and "peerPort (resolve options proxyInfo bufferRest c) = peerPort c"
  unfolding resolve_steps [OF assms] Let_def
  by (cases proxyInfo;
      simp add: ondata_read_frame handover_frame defineSocketProperties_def
        defineProperty_def Let_def)+

lemma resolve_unread:
  assumes "\<not> (strict options \<and> proxyInfo = None)" and "\<not> ondata c"
  shows "unread (resolve options proxyInfo bufferRest c) =
           (if bufferRest = [] then unread c else bufferRest # unread c)"
  unfolding resolve_steps [OF assms(1)] Let_def
  using assms(2)
  by (cases proxyInfo)
     (simp_all add: handover_frame defineSocketProperties_unchanged)

lemma closes_destroy:
  assumes "(error, wasStrict) \<in> {(''non-PROXY protocol connection'', True),
                                 (''PROXY protocol malformed header'', True),
                                 (''PROXY header too long'', False)}"
    and "destroyed c' = destroyed c"
  shows "closes options c (destroy options error wasStrict c')"
  unfolding closes_def using assms
  by (intro disjI2 exI [of _ error] exI [of _ wasStrict])
     (simp add: destroy_destroyed destroy_frame)

lemma closes_resolve:
  assumes "destroyed c' = destroyed c"
  shows "closes options c (resolve options proxyInfo bufferRest c')"
proof (cases "strict options \<and> proxyInfo = None")
  case True
  then have "resolve options proxyInfo bufferRest c' =
             destroy options ''PROXY protocol malformed header'' True (c'\<lparr>listening := False\<rparr>)"
    by (simp add: resolve_strict_None)
  moreover have "destroyed (c'\<lparr>listening := False\<rparr>) = destroyed c"
    using assms by (simp add: destroyed_def)
  ultimately show ?thesis
    by (simp add: closes_destroy)
next
  case False
  then show ?thesis
    using assms by (simp add: closes_def resolve_observed)
qed

lemma whileBody_closes:
  "whileBody lib options chunk c = Return r \<Longrightarrow> closes options c r"
  by (auto simp add: whileBody_def Let_def destroyed_def
        intro!: closes_destroy closes_resolve split: prod.splits if_splits)

lemma whileBody_Continue_destroyed:
  "whileBody lib options chunk c = Continue c' \<Longrightarrow> destroyed c' = destroyed c"
  by (auto simp add: whileBody_def Let_def destroyed_def split: prod.splits if_splits)

lemma closes_cong: "destroyed c' = destroyed c \<Longrightarrow> closes options c' r \<Longrightarrow> closes options c r"
  by (simp add: closes_def)

lemma whileChunk_closes: "closes options c (whileChunk lib options chunk c)"
proof (induction lib options chunk c rule: whileChunk.induct)
  case (1 lib options c)
  show ?case by (simp add: closes_def)
next
  case (2 lib options chunk c)
  show ?case
  proof (cases "whileBody lib options chunk c")
    case (Return r)
    then show ?thesis by (simp add: whileBody_closes)
  next
    case (Continue c')
    have same: "destroyed (snd (socket_read c')) = destroyed c"
      using whileBody_Continue_destroyed [OF Continue]
      by (simp add: socket_read_def destroyed_def split: list.splits)
    have step: "whileChunk lib options (Some chunk) c =
                whileChunk lib options (fst (socket_read c')) (snd (socket_read c'))"
      using Continue by simp
    show ?thesis
      unfolding step by (rule closes_cong [OF same "2.IH" [OF Continue]])
  qed
qed

lemma onReadable_closes: "closes options c (onReadable lib options c)"
proof (cases "unread c")
  case Nil
  then show ?thesis
    by (auto simp add: onReadable_def socket_read_def closes_def destroyed_def perform_def)
next
  case (Cons chunk later)
  have "closes options (c\<lparr>unread := later\<rparr>) (whileChunk lib options (Some chunk) (c\<lparr>unread := later\<rparr>))"
    by (rule whileChunk_closes)
  then show ?thesis
    using Cons by (simp add: onReadable_def socket_read_def closes_def destroyed_def)
qed


lemma prefixMismatch_iff:
  "prefixMismatch b =
     (12 \<le> length b \<and> take 5 b \<noteq> Buffer_from ''PROXY'' \<and> take 12 b \<noteq> v2Header)"
proof -
  have l1: "length v1Header = 5"
    by (simp add: v1Header_def)
  have l2: "length v2Header = 12"
    by (simp add: v2Header_def)
  have v: "v1Header = ''PROXY''"
    by (simp add: v1Header_def)
  show ?thesis
    unfolding prefixMismatch_def l1 l2 unfolding v by simp
qed

lemma malformed_completed:
  assumes "(identify lib b = V1 \<and> indexOf b 0x0D \<noteq> None \<and> V1_parse lib (toString lib b) = None) \<or>
           (identify lib b = V2 \<and> V2_parse lib b = None)"
  shows "isHeaderCompleted lib b = (True, None, b)"
  using assms by (auto simp add: isHeaderCompleted_def)

lemma prefixMismatch_short: "length b < 12 \<Longrightarrow> \<not> prefixMismatch b"
  by (simp add: prefixMismatch_iff)

lemma prefixMismatch_PROXY: "take 5 b = Buffer_from ''PROXY'' \<Longrightarrow> \<not> prefixMismatch b"
  by (simp add: prefixMismatch_iff)

lemma prefixMismatch_v2: "take 12 b = v2Header \<Longrightarrow> \<not> prefixMismatch b"
  by (simp add: prefixMismatch_iff)

lemma onReadable_last_chunk_incomplete:
  assumes "unread c = [chunk]" and "\<not> prefixMismatch (buf c @ chunk)"
    and "\<not> fst (isHeaderCompleted lib (buf c @ chunk))" and "\<not> protocolError c"
    and "length (buf c @ chunk) \<le> 107"
  shows "onReadable lib options c = c\<lparr>unread := [], buf := buf c @ chunk\<rparr>"
proof -
  have "whileBody lib options chunk (c\<lparr>unread := []\<rparr>) =
          Continue (c\<lparr>unread := [], buf := buf c @ chunk\<rparr>)"
    using assms by (simp add: whileBody_incomplete)
  then show ?thesis
    using assms(1) by (simp add: onReadable_chunk socket_read_def)
qed

lemma onReadable_nothing_to_read:
  assumes "unread c = []" and "buf c = []"
  shows "onReadable lib options c = perform ProxiedConnection (c\<lparr>emitRestored := True\<rparr>)"
  using assms by (simp add: onReadable_def socket_read_def)

section \<open>Facts about the concrete inputs\<close>

lemma intercepted_fields:
  "unread intercepted = []" "\<not> emitRestored intercepted" "listening intercepted"
  "ownProperties intercepted = []" "peerAddress intercepted = ''10.0.0.7''"
  "peerPort intercepted = 40000" "history intercepted = Some []"
  "\<not> protocolError intercepted" "\<not> isReadable intercepted" "buf intercepted = []"
  "effects intercepted = []" "\<not> ondata intercepted" "\<not> onend intercepted"
  by (simp_all add: intercepted_def connectionListener_def accepted_def defaults_def)

lemma intercepted_observed:
  "destroyed intercepted = []" "pushedBack intercepted = []" "emitted intercepted = []"
  "announced intercepted = 0"
  by (simp_all add: observations intercepted_fields)

lemma arrive_intercepted:
  "unread (arrive b intercepted) = [b]" "buf (arrive b intercepted) = []"
  "\<not> protocolError (arrive b intercepted)" "\<not> ondata (arrive b intercepted)"
  "ownProperties (arrive b intercepted) = []" "history (arrive b intercepted) = Some []"
  "\<not> emitRestored (arrive b intercepted)"
  "destroyed (arrive b intercepted) = []" "pushedBack (arrive b intercepted) = []"
  "emitted (arrive b intercepted) = []" "announced (arrive b intercepted) = 0"
  by (simp_all add: arrive_def intercepted_fields intercepted_observed)

lemma defaults_fields:
  "strict defaults" "\<not> ignoreStrictExceptions defaults" "overrideRemote defaults"
  "\<not> strict permissive" "\<not> ignoreStrictExceptions permissive" "overrideRemote permissive"
  by (simp_all add: defaults_def permissive_def)

lemma PROXY_bytes: "Buffer_from ''PROXY'' = [0x50, 0x52, 0x4F, 0x58, 0x59]"
  by (simp add: Buffer_from_def)

lemma reference_identify:
  "identify reference b =
     (if take 12 b = v2Header then V2 else if take 5 b = Buffer_from ''PROXY'' then V1 else NOT)"
  by (simp add: reference_def)

lemma pro_bytes: "pro = [0x50, 0x52, 0x4F]"
  by (simp add: pro_def Buffer_from_def)

lemma pro_facts:
  "length pro = 3" "\<not> prefixMismatch pro" "identify reference pro = NOT"
  "isHeaderCompleted reference pro = (True, None, pro)"
  by (simp_all add: prefixMismatch_iff isHeaderCompleted_def reference_identify
        pro_bytes PROXY_bytes v2Header_def)

lemma pro_ascii: "toString_ascii pro = ''PRO''"
  unfolding pro_bytes by code_simp

lemma hello_bytes: "hello = [0x48, 0x45, 0x4C, 0x4C, 0x4F]"
  by (simp add: hello_def Buffer_from_def)

lemma hello_facts:
  "length hello = 5" "take 5 hello \<noteq> Buffer_from ''PROXY''" "take 12 hello \<noteq> v2Header"
  "\<not> prefixMismatch hello" "identify reference hello = NOT"
  "isHeaderCompleted reference hello = (True, None, hello)"
  by (simp_all add: prefixMismatch_iff isHeaderCompleted_def reference_identify
        hello_bytes PROXY_bytes v2Header_def)

lemma hello_ascii: "toString_ascii hello = ''HELLO''"
  unfolding hello_bytes by code_simp

lemma telnet_bytes:
  "telnet = [0x54, 0x45, 0x4C, 0x4E, 0x45, 0x54, 0x20, 0x42, 0x41, 0x42, 0x59]"
  by (simp add: telnet_def Buffer_from_def)

lemma telnet_facts:
  "length telnet = 11" "\<not> prefixMismatch telnet" "identify reference telnet = NOT"
  "isHeaderCompleted reference telnet = (True, None, telnet)"
  by (simp_all add: prefixMismatch_iff isHeaderCompleted_def reference_identify
        telnet_bytes PROXY_bytes v2Header_def)

lemma telnet_ascii: "toString_ascii telnet = ''TELNET BABY''"
  unfolding telnet_bytes by code_simp

lemma letters_take:
  "take 5 (letters 108) = [0x41, 0x41, 0x41, 0x41, 0x41]"
  "take 12 (letters 108) =
     [0x41, 0x41, 0x41, 0x41, 0x41, 0x41, 0x41, 0x41, 0x41, 0x41, 0x41, 0x41]"
proof -
  have "replicate 5 (0x41 :: byte) = [0x41, 0x41, 0x41, 0x41, 0x41]"
    by code_simp
  then show "take 5 (letters 108) = [0x41, 0x41, 0x41, 0x41, 0x41]"
    by (simp add: letters_def)
  have "replicate 12 (0x41 :: byte) =
          [0x41, 0x41, 0x41, 0x41, 0x41, 0x41, 0x41, 0x41, 0x41, 0x41, 0x41, 0x41]"
    by code_simp
  then show "take 12 (letters 108) =
          [0x41, 0x41, 0x41, 0x41, 0x41, 0x41, 0x41, 0x41, 0x41, 0x41, 0x41, 0x41]"
    by (simp add: letters_def)
qed

lemma letters_facts:
  "length (letters n) = n" "take 5 (letters 108) \<noteq> Buffer_from ''PROXY''"
  "take 12 (letters 108) \<noteq> v2Header" "identify reference (letters 108) = NOT"
  "prefixMismatch (letters 108)"
  by (simp_all add: letters_take PROXY_bytes v2Header_def reference_identify prefixMismatch_iff)
     (simp_all add: letters_def)

lemma letter_ascii: "char_of (65 :: nat) = CHR ''A''"
  by code_simp

lemma letters_ascii: "toString_ascii (letters n) = replicate n CHR ''A''"
  by (simp add: letters_def toString_ascii_def letter_ascii)

lemma longLine_facts:
  "length (longLine n) = 5 + n" "\<not> prefixMismatch (longLine n)"
  "isHeaderCompleted undecided b = (False, None, b)"
  "indexOf (longLine n) 0x0D = None" "identify reference (longLine n) = V1"
proof -
  show "length (longLine n) = 5 + n"
    by (simp add: longLine_def PROXY_bytes letters_facts)
  have t: "take 5 (longLine n) = Buffer_from ''PROXY''"
    by (simp add: longLine_def PROXY_bytes)
  then show "\<not> prefixMismatch (longLine n)"
    by (rule prefixMismatch_PROXY)
  show "isHeaderCompleted undecided b = (False, None, b)"
    by (simp add: isHeaderCompleted_def undecided_def)
  have "indexOf (replicate n (0x41 :: byte)) 0x0D = None"
    by (induction n) simp_all
  then show "indexOf (longLine n) 0x0D = None"
    by (simp add: longLine_def PROXY_bytes letters_def)
  have "take 12 (longLine n) \<noteq> v2Header"
    by (simp add: longLine_def PROXY_bytes v2Header_def)
  with t show "identify reference (longLine n) = V1"
    by (simp add: reference_identify)
qed

lemma longLine_ascii: "toString_ascii (longLine n) = ''PROXY'' @ replicate n CHR ''A''"
proof -
  have "toString_ascii [0x50, 0x52, 0x4F, 0x58, 0x59] = ''PROXY''"
    by code_simp
  then show ?thesis
    by (simp add: longLine_def PROXY_bytes toString_ascii_def letters_def letter_ascii)
qed

lemma hack_bytes:
  "hack = [0x50, 0x52, 0x4F, 0x58, 0x59, 0x20, 0x48, 0x41, 0x43, 0x4B, 0x20,
           0x41, 0x54, 0x54, 0x45, 0x4D, 0x50, 0x54, 0x0D, 0x0A]"
  by (simp add: hack_def Buffer_from_def)

lemma hack_string:
  "toString reference hack = ''PROXY HACK ATTEMPT'' @ [CHR 0x0D, CHR 0x0A]"
  unfolding hack_bytes by code_simp

lemma hack_ascii: "toString_ascii hack = ''PROXY HACK ATTEMPT'' @ [CHR 0x0D, CHR 0x0A]"
  unfolding hack_bytes by code_simp

lemma hack_facts:
  "\<not> prefixMismatch hack" "identify reference hack = V1" "indexOf hack 0x0D \<noteq> None"
  "V1_parse reference (toString reference hack) = None" "hack \<noteq> []"
proof -
  show "\<not> prefixMismatch hack" "identify reference hack = V1" "indexOf hack 0x0D \<noteq> None"
    "hack \<noteq> []"
    by (simp_all add: prefixMismatch_iff reference_identify hack_bytes PROXY_bytes v2Header_def)
  show "V1_parse reference (toString reference hack) = None"
    unfolding hack_string
    by (simp add: reference_def reference_V1_parse_def expect_def field_def)
qed

section \<open>The claims\<close>

lemma defineProperty_map_of:
  "map_of (ownProperties (defineProperty n v c)) =
     (map_of (ownProperties c))(n \<mapsto> \<lparr>enumerable = False, configurable = True, getter = v\<rparr>)"
  by (simp add: defineProperty_def update_conv')

lemma defineProperty_frame:
  "peerAddress (defineProperty n v c) = peerAddress c"
  "peerPort (defineProperty n v c) = peerPort c"
  by (simp_all add: defineProperty_def)

lemma defineSocketProperties_map_of:
  "map_of (ownProperties (defineSocketProperties h ov c)) =
     (if ov
      then (map_of (ownProperties c))
             (''clientAddress'' \<mapsto> \<lparr>enumerable = False, configurable = True, getter = Str (remoteAddress h)\<rparr>,
              ''proxyAddress'' \<mapsto> \<lparr>enumerable = False, configurable = True, getter = Str (localAddress h)\<rparr>,
              ''clientPort'' \<mapsto> \<lparr>enumerable = False, configurable = True, getter = Num (remotePort h)\<rparr>,
              ''proxyPort'' \<mapsto> \<lparr>enumerable = False, configurable = True, getter = Num (localPort h)\<rparr>,
              ''remoteAddress'' \<mapsto> \<lparr>enumerable = False, configurable = True, getter = Str (remoteAddress h)\<rparr>,
              ''remotePort'' \<mapsto> \<lparr>enumerable = False, configurable = True, getter = Num (remotePort h)\<rparr>)
      else (map_of (ownProperties c))
             (''clientAddress'' \<mapsto> \<lparr>enumerable = False, configurable = True, getter = Str (remoteAddress h)\<rparr>,
              ''proxyAddress'' \<mapsto> \<lparr>enumerable = False, configurable = True, getter = Str (localAddress h)\<rparr>,
              ''clientPort'' \<mapsto> \<lparr>enumerable = False, configurable = True, getter = Num (remotePort h)\<rparr>,
              ''proxyPort'' \<mapsto> \<lparr>enumerable = False, configurable = True, getter = Num (localPort h)\<rparr>))"
  by (simp add: defineSocketProperties_def Let_def defineProperty_map_of)

lemma defineSocketProperties_frame:
  "peerAddress (defineSocketProperties h ov c) = peerAddress c"
  "peerPort (defineSocketProperties h ov c) = peerPort c"
  by (simp_all add: defineSocketProperties_def Let_def defineProperty_frame)

lemma readProperty_cong:
  "ownProperties c' = ownProperties c \<Longrightarrow> peerAddress c' = peerAddress c \<Longrightarrow>
   peerPort c' = peerPort c \<Longrightarrow> readProperty c' name = readProperty c name"
  by (simp add: readProperty_def split: option.splits)

text \<open>
  Claim C6. \<open>defineSocketProperties\<close> gives the socket \<open>clientAddress\<close> and
  \<open>clientPort\<close> (the header's remote side) and \<open>proxyAddress\<close> and \<open>proxyPort\<close> (its
  local side), each an accessor with a getter only. With \<open>overrideRemote\<close>,
  \<open>remoteAddress\<close> and \<open>remotePort\<close> return the client's address and port; without it
  they return what they returned before, the physical peer's on a socket without own
  properties. When the header was decoded and no protocol error is flagged, resolving
  defines exactly these properties; when no header was decoded (and the mode is not
  strict), the socket's properties and every read of one stay as they were.
\<close>

theorem C6_socket_properties:
  fixes h :: ProxyHeaders and c :: connection
  shows
    "(let c' = defineSocketProperties h ov c in
        readProperty c' ''clientAddress'' = Some (Str (remoteAddress h)) \<and>
        readProperty c' ''clientPort'' = Some (Num (remotePort h)) \<and>
        readProperty c' ''proxyAddress'' = Some (Str (localAddress h)) \<and>
        readProperty c' ''proxyPort'' = Some (Num (localPort h)) \<and>
        (\<forall>name \<in> {''clientAddress'', ''clientPort'', ''proxyAddress'', ''proxyPort''}.
           \<exists>v. map_of (ownProperties c') name =
                 Some \<lparr>enumerable = False, configurable = True, getter = v\<rparr>) \<and>
        (ov \<longrightarrow> readProperty c' ''remoteAddress'' = Some (Str (remoteAddress h)) \<and>
                readProperty c' ''remotePort'' = Some (Num (remotePort h))) \<and>
        (\<not> ov \<longrightarrow> readProperty c' ''remoteAddress'' = readProperty c ''remoteAddress'' \<and>
                  readProperty c' ''remotePort'' = readProperty c ''remotePort'') \<and>
        (\<not> ov \<longrightarrow> ownProperties c = [] \<longrightarrow>
           readProperty c' ''remoteAddress'' = Some (Str (peerAddress c)) \<and>
           readProperty c' ''remotePort'' = Some (Num (peerPort c)))) \<and>
     (\<not> protocolError c \<longrightarrow>
        (\<forall>name. readProperty (resolve options (Some h) bufferRest c) name =
                readProperty (defineSocketProperties h (overrideRemote options) c) name)) \<and>
     (\<not> strict options \<longrightarrow>
        ownProperties (resolve options None bufferRest c) = ownProperties c \<and>
        (\<forall>name. readProperty (resolve options None bufferRest c) name = readProperty c name))"
proof -
  have fields: "(let c' = defineSocketProperties h ov c in
        readProperty c' ''clientAddress'' = Some (Str (remoteAddress h)) \<and>
        readProperty c' ''clientPort'' = Some (Num (remotePort h)) \<and>
        readProperty c' ''proxyAddress'' = Some (Str (localAddress h)) \<and>
        readProperty c' ''proxyPort'' = Some (Num (localPort h)) \<and>
        (\<forall>name \<in> {''clientAddress'', ''clientPort'', ''proxyAddress'', ''proxyPort''}.
           \<exists>v. map_of (ownProperties c') name =
                 Some \<lparr>enumerable = False, configurable = True, getter = v\<rparr>) \<and>
        (ov \<longrightarrow> readProperty c' ''remoteAddress'' = Some (Str (remoteAddress h)) \<and>
                readProperty c' ''remotePort'' = Some (Num (remotePort h))) \<and>
        (\<not> ov \<longrightarrow> readProperty c' ''remoteAddress'' = readProperty c ''remoteAddress'' \<and>
                  readProperty c' ''remotePort'' = readProperty c ''remotePort'') \<and>
        (\<not> ov \<longrightarrow> ownProperties c = [] \<longrightarrow>
           readProperty c' ''remoteAddress'' = Some (Str (peerAddress c)) \<and>
           readProperty c' ''remotePort'' = Some (Num (peerPort c))))"
    by (simp add: Let_def readProperty_def defineSocketProperties_map_of
          defineSocketProperties_frame split: option.splits)
  have proxy: "readProperty (resolve options (Some h) bufferRest c) name =
               readProperty (defineSocketProperties h (overrideRemote options) c) name"
    if "\<not> protocolError c" for name
    using that
    by (intro readProperty_cong)
       (simp_all add: resolve_properties defineSocketProperties_frame)
  have none: "ownProperties (resolve options None bufferRest c) = ownProperties c"
    "readProperty (resolve options None bufferRest c) name = readProperty c name"
    if "\<not> strict options" for name
    using that by (simp_all add: resolve_properties readProperty_def split: option.splits)
  from fields proxy none show ?thesis by blast
qed

theorem C6_socket_properties_witness:
  "readProperty (defineSocketProperties sampleHeaders True intercepted) ''clientAddress'' =
     Some (Str ''192.168.0.254'') \<and>
   readProperty (defineSocketProperties sampleHeaders True intercepted) ''proxyPort'' =
     Some (Num 443) \<and>
   readProperty (defineSocketProperties sampleHeaders True intercepted) ''remoteAddress'' =
     Some (Str ''192.168.0.254'') \<and>
   readProperty (defineSocketProperties sampleHeaders False intercepted) ''clientPort'' =
     Some (Num 3350) \<and>
   readProperty (defineSocketProperties sampleHeaders False intercepted) ''remoteAddress'' =
     Some (Str ''10.0.0.7'') \<and>
   readProperty (defineSocketProperties sampleHeaders False intercepted) ''remotePort'' =
     Some (Num 40000) \<and>
   \<not> protocolError intercepted \<and>
   readProperty (resolve defaults (Some sampleHeaders) [] intercepted) ''remotePort'' =
     Some (Num 3350) \<and>
   \<not> strict permissive \<and>
   readProperty (resolve permissive None [] intercepted) ''clientAddress'' = None \<and>
   readProperty (resolve permissive None [] intercepted) ''remoteAddress'' =
     Some (Str ''10.0.0.7'')"
proof -
  have p: "\<not> protocolError intercepted" "ownProperties intercepted = []"
    "\<not> strict permissive" "overrideRemote defaults"
    by (simp_all add: intercepted_fields permissive_def defaults_def)
  have r: "readProperty intercepted ''clientAddress'' = None"
    "readProperty intercepted ''remoteAddress'' = Some (Str ''10.0.0.7'')"
    "readProperty intercepted ''remotePort'' = Some (Num 40000)"
    by (simp_all add: readProperty_def intercepted_fields)
  note a = C6_socket_properties [of sampleHeaders True intercepted defaults "[]"]
  note b = C6_socket_properties [of sampleHeaders False intercepted permissive "[]"]
  show ?thesis
    using a b p r by (simp add: Let_def sampleHeaders_def intercepted_fields)
qed

text \<open>
  Claim C5. When \<open>isHeaderCompleted\<close> finds a header malformed (version 1 with a CR and a
  parser that throws, or version 2 with a parser that throws) in a buffer the prefix
  check has let pass: in strict mode the socket is destroyed by
  \<open>destroy('PROXY protocol malformed header', true)\<close>; in permissive mode nothing is
  destroyed, no property is defined, the whole buffer is pushed back to the socket and
  the connection is announced once.
\<close>

theorem C5_malformed_header:
  assumes first: "unread c = chunk # later"
    and passed: "\<not> prefixMismatch (buf c @ chunk)"
    and malformed:
      "(identify lib (buf c @ chunk) = V1 \<and> indexOf (buf c @ chunk) 0x0D \<noteq> None \<and>
        V1_parse lib (toString lib (buf c @ chunk)) = None) \<or>
       (identify lib (buf c @ chunk) = V2 \<and> V2_parse lib (buf c @ chunk) = None)"
  shows
    "(strict options \<longrightarrow>
        onReadable lib options c =
          destroy options ''PROXY protocol malformed header'' True
            (c\<lparr>unread := later, buf := buf c @ chunk, listening := False\<rparr>) \<and>
        destroyed (onReadable lib options c) =
          destroyed c @
            [destroyArgument options True
               \<lparr>message = ''PROXY protocol malformed header'',
                header = Some (toString_ascii (buf c @ chunk))\<rparr>] \<and>
        pushedBack (onReadable lib options c) = pushedBack c \<and>
        announced (onReadable lib options c) = announced c) \<and>
     (\<not> strict options \<longrightarrow>
        destroyed (onReadable lib options c) = destroyed c \<and>
        pushedBack (onReadable lib options c) = pushedBack c @ [buf c @ chunk] \<and>
        ownProperties (onReadable lib options c) = ownProperties c \<and>
        announced (onReadable lib options c) = Suc (announced c) \<and>
        emitRestored (onReadable lib options c) \<and>
        (\<not> ondata c \<longrightarrow>
           unread (onReadable lib options c) =
             (if buf c @ chunk = [] then later else (buf c @ chunk) # later)))"
proof -
  have completed: "isHeaderCompleted lib (buf c @ chunk) = (True, None, buf c @ chunk)"
    using malformed by (rule malformed_completed)
  have run: "onReadable lib options c =
             resolve options None (buf c @ chunk) (c\<lparr>unread := later, buf := buf c @ chunk\<rparr>)"
    using passed completed by (simp add: onReadable_Return [OF first] whileBody_completed)
  show ?thesis
  proof (cases "strict options")
    case True
    then show ?thesis
      by (simp add: run resolve_strict_None destroy_destroyed destroy_frame)
  next
    case False
    then show ?thesis
      by (simp add: run resolve_observed resolve_properties resolve_unread)
  qed
qed

theorem C5_malformed_header_witness:
  "\<not> prefixMismatch hack \<and> identify reference hack = V1 \<and> indexOf hack 0x0D \<noteq> None \<and>
   V1_parse reference (toString reference hack) = None \<and>
   destroyed (onReadable reference defaults (arrive hack intercepted)) =
     [Some \<lparr>message = ''PROXY protocol malformed header'',
            header = Some (''PROXY HACK ATTEMPT'' @ [CHR 0x0D, CHR 0x0A])\<rparr>] \<and>
   destroyed (onReadable reference permissive (arrive hack intercepted)) = [] \<and>
   pushedBack (onReadable reference permissive (arrive hack intercepted)) = [hack] \<and>
   unread (onReadable reference permissive (arrive hack intercepted)) = [hack] \<and>
   ownProperties (onReadable reference permissive (arrive hack intercepted)) = []"
proof -
  have ne: "hack \<noteq> []"
    by (simp add: hack_def)
  note s = C5_malformed_header [of "arrive hack intercepted" hack "[]" reference defaults]
  note p = C5_malformed_header [of "arrive hack intercepted" hack "[]" reference permissive]
  show ?thesis
    using s p ne
    by (simp add: arrive_intercepted hack_facts hack_ascii defaults_fields
          destroyArgument_def destroy_destroyed destroy_frame)
qed

text \<open>
  Claim C2, as the code has it. The prefix check waits for the longer of the two
  signatures: it fires when the buffer holds at least 12 bytes and starts with neither
  \<open>PROXY\<close> nor the version 2 signature. Then the protocol-error flag is set; in strict
  mode the socket is destroyed at once by
  \<open>destroy('non-PROXY protocol connection', true)\<close> and nothing is pushed back or
  announced; in permissive mode nothing is destroyed, no property is defined, the
  connection is announced and what \<open>isHeaderCompleted\<close> returns as the rest is pushed
  back, which is the whole buffer when \<open>identify\<close> finds no PROXY header in it.
\<close>

theorem C2_prefix_mismatch:
  assumes first: "unread c = chunk # later"
    and long: "12 \<le> length (buf c @ chunk)"
    and not1: "take 5 (buf c @ chunk) \<noteq> Buffer_from ''PROXY''"
    and not2: "take 12 (buf c @ chunk) \<noteq> v2Header"
  shows
    "prefixMismatch (buf c @ chunk) \<and>
     (strict options \<longrightarrow>
        onReadable lib options c =
          destroy options ''non-PROXY protocol connection'' True
            (c\<lparr>unread := later, buf := buf c @ chunk, protocolError := True\<rparr>) \<and>
        destroyed (onReadable lib options c) =
          destroyed c @
            [destroyArgument options True
               \<lparr>message = ''non-PROXY protocol connection'',
                header = Some (toString_ascii (buf c @ chunk))\<rparr>] \<and>
        protocolError (onReadable lib options c) \<and>
        pushedBack (onReadable lib options c) = pushedBack c \<and>
        announced (onReadable lib options c) = announced c) \<and>
     (\<not> strict options \<longrightarrow>
        protocolError (onReadable lib options c) \<and>
        destroyed (onReadable lib options c) = destroyed c \<and>
        ownProperties (onReadable lib options c) = ownProperties c \<and>
        announced (onReadable lib options c) = Suc (announced c) \<and>
        pushedBack (onReadable lib options c) =
          pushedBack c @ [snd (snd (isHeaderCompleted lib (buf c @ chunk)))] \<and>
        (identify lib (buf c @ chunk) = NOT \<longrightarrow>
           pushedBack (onReadable lib options c) = pushedBack c @ [buf c @ chunk]))"
proof -
  have mismatch: "prefixMismatch (buf c @ chunk)"
    using long not1 not2 unfolding prefixMismatch_iff by blast
  obtain headerCompleted proxyInfo bufferRest
    where hc: "isHeaderCompleted lib (buf c @ chunk) = (headerCompleted, proxyInfo, bufferRest)"
    by (cases "isHeaderCompleted lib (buf c @ chunk)") auto
  have not_found: "bufferRest = buf c @ chunk" if "identify lib (buf c @ chunk) = NOT"
    using that hc by (simp add: isHeaderCompleted_def)
  have strict_case: ?thesis if s: "strict options"
    using s mismatch
    by (simp add: onReadable_Return [OF first] whileBody_mismatch_strict destroy_destroyed
          destroy_frame)
  have permissive_case: ?thesis if s: "\<not> strict options"
  proof -
    have run: "onReadable lib options c =
               resolve options proxyInfo bufferRest
                 (c\<lparr>unread := later, buf := buf c @ chunk, protocolError := True\<rparr>)"
      using s mismatch hc
      by (simp add: onReadable_Return [OF first] whileBody_mismatch_permissive)
    show ?thesis
      using s mismatch hc not_found
      by (simp add: run resolve_observed resolve_properties split: option.splits)
  qed
  from strict_case permissive_case show ?thesis by blast
qed

theorem C2_prefix_mismatch_witness:
  "12 \<le> length (letters 108) \<and> take 5 (letters 108) \<noteq> Buffer_from ''PROXY'' \<and>
   take 12 (letters 108) \<noteq> v2Header \<and>
   destroyed (onReadable reference defaults (arrive (letters 108) intercepted)) =
     [Some \<lparr>message = ''non-PROXY protocol connection'',
            header = Some (replicate 108 CHR ''A'')\<rparr>] \<and>
   pushedBack (onReadable reference defaults (arrive (letters 108) intercepted)) = [] \<and>
   protocolError (onReadable reference permissive (arrive (letters 108) intercepted)) \<and>
   destroyed (onReadable reference permissive (arrive (letters 108) intercepted)) = [] \<and>
   pushedBack (onReadable reference permissive (arrive (letters 108) intercepted)) =
     [letters 108]"
proof -
  note s = C2_prefix_mismatch [of "arrive (letters 108) intercepted" "letters 108" "[]"
             defaults reference]
  note p = C2_prefix_mismatch [of "arrive (letters 108) intercepted" "letters 108" "[]"
             permissive reference]
  show ?thesis
    using s p
    by (simp add: arrive_intercepted letters_facts letters_ascii defaults_fields
          destroyArgument_def destroy_destroyed destroy_frame isHeaderCompleted_def)
qed

theorem C2_five_bytes_counterexample:
  "length hello = 5 \<and> take 5 hello \<noteq> Buffer_from v1Header \<and> take 12 hello \<noteq> v2Header \<and>
   destroyed (onReadable reference defaults (arrive hello intercepted)) =
     [Some \<lparr>message = ''PROXY protocol malformed header'', header = Some ''HELLO''\<rparr>] \<and>
   \<not> protocolError (onReadable reference permissive (arrive hello intercepted))"
proof -
  have s: "onReadable reference defaults (arrive hello intercepted) =
           resolve defaults None hello ((arrive hello intercepted)\<lparr>unread := [], buf := hello\<rparr>)"
    by (simp add: onReadable_Return [OF arrive_intercepted(1)] whileBody_completed
          arrive_intercepted hello_facts)
  have p: "onReadable reference permissive (arrive hello intercepted) =
           resolve permissive None hello ((arrive hello intercepted)\<lparr>unread := [], buf := hello\<rparr>)"
    by (simp add: onReadable_Return [OF arrive_intercepted(1)] whileBody_completed
          arrive_intercepted hello_facts)
  show ?thesis
    by (simp add: s p hello_facts hello_ascii v1Header_def resolve_strict_None
          destroy_destroyed resolve_observed defaults_fields destroyArgument_def
          arrive_intercepted)
       (simp add: hello_bytes PROXY_bytes v2Header_def)
qed

text \<open>
  Claim C8. The three fatal failures of the interceptor, for the first chunk
  \<open>onReadable\<close> reads while no protocol error is flagged. A prefix mismatch in strict
  mode and a completed decoding without a header in strict mode are strict rejections:
  the socket is destroyed with the error "non-PROXY protocol connection" or "PROXY
  protocol malformed header", whose \<open>header\<close> is the accumulated buffer read as ASCII,
  and under \<open>ignoreStrictExceptions\<close> with \<open>undefined\<close> in its place. A buffer of more
  than 107 bytes that is neither a mismatch nor a completed header is destroyed with
  the error "PROXY header too long" and the same header text, whatever
  \<open>ignoreStrictExceptions\<close> and \<open>strict\<close> say. In every other case of the first chunk
  nothing is destroyed. Whatever \<open>onReadable\<close> reads, it destroys the socket at most
  once, by one of these three calls.
\<close>

theorem C8_closing_error:
  "closes options c (onReadable lib options c) \<and>
   (unread c = chunk # later \<longrightarrow> \<not> protocolError c \<longrightarrow>
      (prefixMismatch (buf c @ chunk) \<and> strict options \<longrightarrow>
         destroyed (onReadable lib options c) =
           destroyed c @
             [if ignoreStrictExceptions options then None
              else Some \<lparr>message = ''non-PROXY protocol connection'',
                         header = Some (toString_ascii (buf c @ chunk))\<rparr>]) \<and>
      (\<not> prefixMismatch (buf c @ chunk) \<and> strict options \<and>
       fst (isHeaderCompleted lib (buf c @ chunk)) \<and>
       fst (snd (isHeaderCompleted lib (buf c @ chunk))) = None \<longrightarrow>
         destroyed (onReadable lib options c) =
           destroyed c @
             [if ignoreStrictExceptions options then None
              else Some \<lparr>message = ''PROXY protocol malformed header'',
                         header = Some (toString_ascii (buf c @ chunk))\<rparr>]) \<and>
      (\<not> prefixMismatch (buf c @ chunk) \<and>
       \<not> fst (isHeaderCompleted lib (buf c @ chunk)) \<and> 107 < length (buf c @ chunk) \<longrightarrow>
         destroyed (onReadable lib options c) =
           destroyed c @
             [Some \<lparr>message = ''PROXY header too long'',
                    header = Some (toString_ascii (buf c @ chunk))\<rparr>]) \<and>
      (prefixMismatch (buf c @ chunk) \<and> \<not> strict options \<longrightarrow>
         destroyed (onReadable lib options c) = destroyed c) \<and>
      (\<not> prefixMismatch (buf c @ chunk) \<and> fst (isHeaderCompleted lib (buf c @ chunk)) \<and>
       (fst (snd (isHeaderCompleted lib (buf c @ chunk))) \<noteq> None \<or> \<not> strict options) \<longrightarrow>
         destroyed (onReadable lib options c) = destroyed c) \<and>
      (\<not> prefixMismatch (buf c @ chunk) \<and>
       \<not> fst (isHeaderCompleted lib (buf c @ chunk)) \<and> length (buf c @ chunk) \<le> 107 \<and>
       later = [] \<longrightarrow>
         destroyed (onReadable lib options c) = destroyed c))"
proof -
  obtain headerCompleted proxyInfo bufferRest
    where hc: "isHeaderCompleted lib (buf c @ chunk) = (headerCompleted, proxyInfo, bufferRest)"
    by (cases "isHeaderCompleted lib (buf c @ chunk)") auto
  have cases: "(prefixMismatch (buf c @ chunk) \<and> strict options \<longrightarrow>
         destroyed (onReadable lib options c) =
           destroyed c @
             [if ignoreStrictExceptions options then None
              else Some \<lparr>message = ''non-PROXY protocol connection'',
                         header = Some (toString_ascii (buf c @ chunk))\<rparr>]) \<and>
      (\<not> prefixMismatch (buf c @ chunk) \<and> strict options \<and> headerCompleted \<and>
       proxyInfo = None \<longrightarrow>
         destroyed (onReadable lib options c) =
           destroyed c @
             [if ignoreStrictExceptions options then None
              else Some \<lparr>message = ''PROXY protocol malformed header'',
                         header = Some (toString_ascii (buf c @ chunk))\<rparr>]) \<and>
      (\<not> prefixMismatch (buf c @ chunk) \<and> \<not> headerCompleted \<and>
       107 < length (buf c @ chunk) \<longrightarrow>
         destroyed (onReadable lib options c) =
           destroyed c @
             [Some \<lparr>message = ''PROXY header too long'',
                    header = Some (toString_ascii (buf c @ chunk))\<rparr>]) \<and>
      (prefixMismatch (buf c @ chunk) \<and> \<not> strict options \<longrightarrow>
         destroyed (onReadable lib options c) = destroyed c) \<and>
      (\<not> prefixMismatch (buf c @ chunk) \<and> headerCompleted \<and>
       (proxyInfo \<noteq> None \<or> \<not> strict options) \<longrightarrow>
         destroyed (onReadable lib options c) = destroyed c) \<and>
      (\<not> prefixMismatch (buf c @ chunk) \<and> \<not> headerCompleted \<and>
       length (buf c @ chunk) \<le> 107 \<and> later = [] \<longrightarrow>
         destroyed (onReadable lib options c) = destroyed c)"
    if first: "unread c = chunk # later" and progress: "\<not> protocolError c"
  proof (intro conjI impI)
    assume a: "prefixMismatch (buf c @ chunk) \<and> strict options"
    then show "destroyed (onReadable lib options c) =
           destroyed c @
             [if ignoreStrictExceptions options then None
              else Some \<lparr>message = ''non-PROXY protocol connection'',
                         header = Some (toString_ascii (buf c @ chunk))\<rparr>]"
      by (simp add: onReadable_Return [OF first] whileBody_mismatch_strict destroy_destroyed
            destroyArgument_def)
  next
    assume a: "\<not> prefixMismatch (buf c @ chunk) \<and> strict options \<and> headerCompleted \<and>
               proxyInfo = None"
    then show "destroyed (onReadable lib options c) =
           destroyed c @
             [if ignoreStrictExceptions options then None
              else Some \<lparr>message = ''PROXY protocol malformed header'',
                         header = Some (toString_ascii (buf c @ chunk))\<rparr>]"
      using hc
      by (simp add: onReadable_Return [OF first] whileBody_completed resolve_strict_None
            destroy_destroyed destroyArgument_def)
  next
    assume a: "\<not> prefixMismatch (buf c @ chunk) \<and> \<not> headerCompleted \<and>
               107 < length (buf c @ chunk)"
    then show "destroyed (onReadable lib options c) =
           destroyed c @
             [Some \<lparr>message = ''PROXY header too long'',
                    header = Some (toString_ascii (buf c @ chunk))\<rparr>]"
      using hc progress
      by (simp add: onReadable_Return [OF first] whileBody_incomplete destroy_destroyed
            destroyArgument_def)
  next
    assume a: "prefixMismatch (buf c @ chunk) \<and> \<not> strict options"
    then show "destroyed (onReadable lib options c) = destroyed c"
      using hc
      by (simp add: onReadable_Return [OF first] whileBody_mismatch_permissive
            resolve_observed)
  next
    assume a: "\<not> prefixMismatch (buf c @ chunk) \<and> headerCompleted \<and>
               (proxyInfo \<noteq> None \<or> \<not> strict options)"
    then have "\<not> (strict options \<and> proxyInfo = None)"
      by blast
    then show "destroyed (onReadable lib options c) = destroyed c"
      using a hc
      by (simp add: onReadable_Return [OF first] whileBody_completed resolve_observed)
  next
    assume a: "\<not> prefixMismatch (buf c @ chunk) \<and> \<not> headerCompleted \<and>
               length (buf c @ chunk) \<le> 107 \<and> later = []"
    then show "destroyed (onReadable lib options c) = destroyed c"
      using hc progress first
      by (simp add: onReadable_last_chunk_incomplete)
  qed
  show ?thesis
    using cases onReadable_closes [of options c lib] by (simp add: hc)
qed

theorem C8_closing_error_witness:
  "destroyed (onReadable reference defaults (arrive (letters 108) intercepted)) =
     [Some \<lparr>message = ''non-PROXY protocol connection'',
            header = Some (replicate 108 CHR ''A'')\<rparr>] \<and>
   destroyed (onReadable reference ignoring (arrive (letters 108) intercepted)) = [None] \<and>
   destroyed (onReadable reference defaults (arrive pro intercepted)) =
     [Some \<lparr>message = ''PROXY protocol malformed header'', header = Some ''PRO''\<rparr>] \<and>
   destroyed (onReadable reference ignoring (arrive pro intercepted)) = [None] \<and>
   destroyed (onReadable undecided ignoring (arrive (longLine 103) intercepted)) =
     [Some \<lparr>message = ''PROXY header too long'',
            header = Some (''PROXY'' @ replicate 103 CHR ''A'')\<rparr>] \<and>
   destroyed (onReadable reference permissive (arrive (letters 108) intercepted)) = [] \<and>
   destroyed (onReadable undecided defaults (arrive (longLine 102) intercepted)) = []"
proof -
  have o: "strict ignoring" "ignoreStrictExceptions ignoring"
    by (simp_all add: ignoring_def defaults_def)
  note a = C8_closing_error [of defaults "arrive (letters 108) intercepted" reference
             "letters 108" "[]"]
  note b = C8_closing_error [of ignoring "arrive (letters 108) intercepted" reference
             "letters 108" "[]"]
  note c = C8_closing_error [of defaults "arrive pro intercepted" reference pro "[]"]
  note d = C8_closing_error [of ignoring "arrive pro intercepted" reference pro "[]"]
  note e = C8_closing_error [of ignoring "arrive (longLine 103) intercepted" undecided
             "longLine 103" "[]"]
  note f = C8_closing_error [of permissive "arrive (letters 108) intercepted" reference
             "letters 108" "[]"]
  note g = C8_closing_error [of defaults "arrive (longLine 102) intercepted" undecided
             "longLine 102" "[]"]
  have 1: "destroyed (onReadable reference defaults (arrive (letters 108) intercepted)) =
     [Some \<lparr>message = ''non-PROXY protocol connection'',
            header = Some (replicate 108 CHR ''A'')\<rparr>]"
    using a by (simp add: arrive_intercepted letters_facts letters_ascii defaults_fields)
  have 2: "destroyed (onReadable reference ignoring (arrive (letters 108) intercepted)) = [None]"
    using b by (simp add: arrive_intercepted letters_facts o)
  have 3: "destroyed (onReadable reference defaults (arrive pro intercepted)) =
     [Some \<lparr>message = ''PROXY protocol malformed header'', header = Some ''PRO''\<rparr>]"
    using c by (simp add: arrive_intercepted pro_facts pro_ascii defaults_fields)
  have 4: "destroyed (onReadable reference ignoring (arrive pro intercepted)) = [None]"
    using d by (simp add: arrive_intercepted pro_facts o)
  have 5: "destroyed (onReadable undecided ignoring (arrive (longLine 103) intercepted)) =
     [Some \<lparr>message = ''PROXY header too long'',
            header = Some (''PROXY'' @ replicate 103 CHR ''A'')\<rparr>]"
    using e by (simp add: arrive_intercepted longLine_facts longLine_ascii)
  have 6: "destroyed (onReadable reference permissive (arrive (letters 108) intercepted)) = []"
    using f by (simp add: arrive_intercepted letters_facts defaults_fields)
  have 7: "destroyed (onReadable undecided defaults (arrive (longLine 102) intercepted)) = []"
    using g by (simp add: arrive_intercepted longLine_facts)
  from 1 2 3 4 5 6 7 show ?thesis by blast
qed

lemma reference_not_proxy:
  "(identify reference b = NOT) =
     (take 5 b \<noteq> Buffer_from ''PROXY'' \<and> take 12 b \<noteq> v2Header)"
  by (simp add: reference_identify)

text \<open>
  Claim C10, as the code has it. Without options the merged object has \<open>strict = true\<close>,
  \<open>ignoreStrictExceptions = false\<close>, \<open>overrideRemote = true\<close> and no timeout, and these
  are what the interceptor tests. Each field of the merged object is decided by the
  caller's key of that name alone: the default when the key is absent, the caller's
  value when it has one, and \<open>undefined\<close> (which tests as false) when the key is present
  with the value \<open>undefined\<close>. With no options, a first chunk in which \<open>identify\<close> finds
  no PROXY header gets the socket destroyed, with the error "non-PROXY protocol
  connection" when the prefix check fires (12 bytes or more) and "PROXY protocol
  malformed header" otherwise; for the reference codec these are the chunks that start
  with neither signature. A connection whose first \<open>readable\<close> finds nothing to read is
  not destroyed: it is announced as a proxied connection.
\<close>

theorem C10_default_options:
  "mergeOptions None =
     \<lparr>strict_value = Some True, ignoreStrictExceptions_value = Some False,
      overrideRemote_value = Some True, timeout_value = None\<rparr> \<and>
   tested (mergeOptions None) = defaults \<and>
   strict_value (mergeOptions (Some g)) =
     (case strict_key g of Missing \<Rightarrow> Some True | Undefined \<Rightarrow> None | Value v \<Rightarrow> Some v) \<and>
   ignoreStrictExceptions_value (mergeOptions (Some g)) =
     (case ignoreStrictExceptions_key g of
        Missing \<Rightarrow> Some False | Undefined \<Rightarrow> None | Value v \<Rightarrow> Some v) \<and>
   overrideRemote_value (mergeOptions (Some g)) =
     (case overrideRemote_key g of
        Missing \<Rightarrow> Some True | Undefined \<Rightarrow> None | Value v \<Rightarrow> Some v) \<and>
   timeout_value (mergeOptions (Some g)) =
     (case timeout_key g of Missing \<Rightarrow> None | Undefined \<Rightarrow> None | Value v \<Rightarrow> Some v) \<and>
   strict (tested (mergeOptions (Some g))) =
     (strict_key g = Missing \<or> strict_key g = Value True) \<and>
   (unread c = chunk # later \<longrightarrow> identify lib (buf c @ chunk) = NOT \<longrightarrow>
      destroyed (onReadable lib (tested (mergeOptions None)) c) =
        destroyed c @
          [Some \<lparr>message = (if prefixMismatch (buf c @ chunk)
                             then ''non-PROXY protocol connection''
                             else ''PROXY protocol malformed header''),
                 header = Some (toString_ascii (buf c @ chunk))\<rparr>]) \<and>
   ((identify reference b = NOT) =
      (take 5 b \<noteq> Buffer_from ''PROXY'' \<and> take 12 b \<noteq> v2Header)) \<and>
   (unread c = [] \<longrightarrow> buf c = [] \<longrightarrow>
      destroyed (onReadable lib (tested (mergeOptions None)) c) = destroyed c \<and>
      announced (onReadable lib (tested (mergeOptions None)) c) = Suc (announced c) \<and>
      emitRestored (onReadable lib (tested (mergeOptions None)) c))"
proof -
  have d: "tested (mergeOptions None) = defaults"
    by (simp add: tested_def mergeOptions_def defaults_def truthy_def)
  have opts: "strict defaults" "\<not> ignoreStrictExceptions defaults"
    by (simp_all add: defaults_def)
  have drop: "destroyed (onReadable lib defaults c) =
        destroyed c @
          [Some \<lparr>message = (if prefixMismatch (buf c @ chunk)
                             then ''non-PROXY protocol connection''
                             else ''PROXY protocol malformed header''),
                 header = Some (toString_ascii (buf c @ chunk))\<rparr>]"
    if u: "unread c = chunk # later" and n: "identify lib (buf c @ chunk) = NOT"
  proof (cases "prefixMismatch (buf c @ chunk)")
    case True
    then show ?thesis
      using opts
      by (simp add: onReadable_Return [OF u] whileBody_mismatch_strict destroy_destroyed
            destroyArgument_def)
  next
    case False
    have "isHeaderCompleted lib (buf c @ chunk) = (True, None, buf c @ chunk)"
      using n by (simp add: isHeaderCompleted_def)
    then show ?thesis
      using opts False
      by (simp add: onReadable_Return [OF u] whileBody_completed resolve_strict_None
            destroy_destroyed destroyArgument_def)
  qed
  have empty: "destroyed (onReadable lib defaults c) = destroyed c \<and>
      announced (onReadable lib defaults c) = Suc (announced c) \<and>
      emitRestored (onReadable lib defaults c)"
    if "unread c = []" and "buf c = []"
    using that by (simp add: onReadable_nothing_to_read perform_def observations)
  have fields:
    "mergeOptions None =
       \<lparr>strict_value = Some True, ignoreStrictExceptions_value = Some False,
        overrideRemote_value = Some True, timeout_value = None\<rparr>"
    "strict_value (mergeOptions (Some g)) =
       (case strict_key g of Missing \<Rightarrow> Some True | Undefined \<Rightarrow> None | Value v \<Rightarrow> Some v)"
    "ignoreStrictExceptions_value (mergeOptions (Some g)) =
       (case ignoreStrictExceptions_key g of
          Missing \<Rightarrow> Some False | Undefined \<Rightarrow> None | Value v \<Rightarrow> Some v)"
    "overrideRemote_value (mergeOptions (Some g)) =
       (case overrideRemote_key g of
          Missing \<Rightarrow> Some True | Undefined \<Rightarrow> None | Value v \<Rightarrow> Some v)"
    "timeout_value (mergeOptions (Some g)) =
       (case timeout_key g of Missing \<Rightarrow> None | Undefined \<Rightarrow> None | Value v \<Rightarrow> Some v)"
    "strict (tested (mergeOptions (Some g))) =
       (strict_key g = Missing \<or> strict_key g = Value True)"
    by (simp_all add: mergeOptions_def defaults_def spread_def tested_def truthy_def
          split: key.splits)
  show ?thesis
    unfolding d using fields drop empty reference_not_proxy [of b] by blast
qed

theorem C10_default_options_witness:
  "unread (arrive telnet intercepted) = [telnet] \<and>
   identify reference (buf (arrive telnet intercepted) @ telnet) = NOT \<and>
   destroyed (onReadable reference (tested (mergeOptions None)) (arrive telnet intercepted)) =
     [Some \<lparr>message = ''PROXY protocol malformed header'', header = Some ''TELNET BABY''\<rparr>] \<and>
   destroyed (onReadable reference (tested (mergeOptions None))
                (arrive (letters 108) intercepted)) =
     [Some \<lparr>message = ''non-PROXY protocol connection'',
            header = Some (replicate 108 CHR ''A'')\<rparr>] \<and>
   unread intercepted = [] \<and> buf intercepted = [] \<and>
   announced (onReadable reference (tested (mergeOptions None)) intercepted) = 1 \<and>
   \<not> strict (tested (mergeOptions (Some \<lparr>strict_key = Undefined,
                  ignoreStrictExceptions_key = Missing, overrideRemote_key = Missing,
                  timeout_key = Missing\<rparr>))) \<and>
   overrideRemote_value (mergeOptions (Some \<lparr>strict_key = Undefined,
                  ignoreStrictExceptions_key = Missing, overrideRemote_key = Missing,
                  timeout_key = Missing\<rparr>)) = Some True"
proof -
  note norm = mergeOptions_def defaults_def tested_def truthy_def spread_def
  note t = C10_default_options [of "\<lparr>strict_key = Undefined,
                  ignoreStrictExceptions_key = Missing, overrideRemote_key = Missing,
                  timeout_key = Missing\<rparr>" "arrive telnet intercepted" telnet "[]" reference
                  telnet]
  note l = C10_default_options [of "\<lparr>strict_key = Undefined,
                  ignoreStrictExceptions_key = Missing, overrideRemote_key = Missing,
                  timeout_key = Missing\<rparr>" "arrive (letters 108) intercepted" "letters 108"
                  "[]" reference telnet]
  note e = C10_default_options [of "\<lparr>strict_key = Undefined,
                  ignoreStrictExceptions_key = Missing, overrideRemote_key = Missing,
                  timeout_key = Missing\<rparr>" intercepted telnet "[]" reference telnet]
  have 1: "destroyed (onReadable reference (tested (mergeOptions None))
                        (arrive telnet intercepted)) =
     [Some \<lparr>message = ''PROXY protocol malformed header'', header = Some ''TELNET BABY''\<rparr>]"
    using t by (simp add: arrive_intercepted telnet_facts telnet_ascii norm)
  have 2: "destroyed (onReadable reference (tested (mergeOptions None))
                (arrive (letters 108) intercepted)) =
     [Some \<lparr>message = ''non-PROXY protocol connection'',
            header = Some (replicate 108 CHR ''A'')\<rparr>]"
    using l by (simp add: arrive_intercepted letters_facts letters_ascii norm)
  have 3: "announced (onReadable reference (tested (mergeOptions None)) intercepted) = 1"
    using e by (simp add: intercepted_fields intercepted_observed norm)
  have 4: "\<not> strict (tested (mergeOptions (Some \<lparr>strict_key = Undefined,
                  ignoreStrictExceptions_key = Missing, overrideRemote_key = Missing,
                  timeout_key = Missing\<rparr>)))"
    "overrideRemote_value (mergeOptions (Some \<lparr>strict_key = Undefined,
                  ignoreStrictExceptions_key = Missing, overrideRemote_key = Missing,
                  timeout_key = Missing\<rparr>)) = Some True"
    using t by (simp_all add: norm)
  show ?thesis
    using 1 2 3 4 by (simp add: arrive_intercepted intercepted_fields telnet_facts)
qed

text \<open>
  With no options, a connection whose first \<open>readable\<close> event finds nothing to read does
  not begin with a PROXY signature, and it is handed on, not dropped.
\<close>

theorem C10_empty_read_counterexample:
  "unread intercepted = [] \<and>
   destroyed (socket_emit reference (tested (mergeOptions None)) (''readable'', [])
                intercepted) = [] \<and>
   announced (socket_emit reference (tested (mergeOptions None)) (''readable'', [])
                intercepted) = 1 \<and>
   emitRestored (socket_emit reference (tested (mergeOptions None)) (''readable'', [])
                   intercepted)"
  by (simp add: socket_emit_def emit_def Let_def intercepted_fields
        onReadable_nothing_to_read perform_def observations)

end
